theory Spec2Isabelle
  imports Main "HOL-Library.AList" "HOL-Library.Char_ord" "HOL-Library.List_Lexorder"
begin

section \<open>Go library functions used by the controllers\<close>

text \<open>
  Go strings are byte strings; they are modelled as \<open>string\<close> (lists of \<open>char\<close>).
  Every call of \<open>strings.Split\<close> in the controllers passes a one-byte separator
  (\<open>"#"\<close> or \<open>"/"\<close>), so the separator is a \<open>char\<close>. As in Go, the result always
  has at least one element: splitting the empty string yields one empty string.
\<close>

fun strings_Split :: "string \<Rightarrow> char \<Rightarrow> string list" where
  "strings_Split [] c = [[]]"
| "strings_Split (x # xs) c =
     (if x = c then [] # strings_Split xs c
      else (case strings_Split xs c of
              [] \<Rightarrow> [[x]]
            | p # ps \<Rightarrow> (x # p) # ps))"

fun strings_Join :: "string list \<Rightarrow> string \<Rightarrow> string" where
  "strings_Join [] sep = []"
| "strings_Join [x] sep = x"
| "strings_Join (x # y # ys) sep = x @ sep @ strings_Join (y # ys) sep"

definition strings_HasPrefix :: "string \<Rightarrow> string \<Rightarrow> bool" where
  "strings_HasPrefix s pre = (take (length pre) s = pre)"

definition strings_HasSuffix :: "string \<Rightarrow> string \<Rightarrow> bool" where
  "strings_HasSuffix s suf =
     (length suf \<le> length s \<and> drop (length s - length suf) s = suf)"

definition strings_TrimSuffix :: "string \<Rightarrow> string \<Rightarrow> string" where
  "strings_TrimSuffix s suf =
     (if strings_HasSuffix s suf then take (length s - length suf) s else s)"

text \<open>\<open>slices.Contains\<close>.\<close>

definition slices_Contains :: "'a list \<Rightarrow> 'a \<Rightarrow> bool" where
  "slices_Contains xs x = (x \<in> set xs)"

text \<open>
  Runtime panics and failures are values. \<open>IndexOutOfRange\<close> is the Go runtime panic
  of an index expression \<open>xs[i]\<close> with \<open>i \<ge> len(xs)\<close>, \<open>NilPointerDereference\<close> the
  panic of a nil pointer dereference; \<open>ApiError\<close> is a non-nil
  \<open>error\<close> returned by a call on the cluster client or by a library function;
  \<open>Invalid\<close> is an error made by \<open>fmt.Errorf\<close> from a message alone, \<open>Wrapped\<close> one
  made from a message and the text of another error.
\<close>

datatype error =
  IndexOutOfRange | NilPointerDereference | ApiError string | Invalid string | Wrapped string error

text \<open>A panic is not an \<open>error\<close> value in Go: it passes through the code that wraps
  errors.\<close>

definition wrapError :: "string \<Rightarrow> error \<Rightarrow> error" where
  "wrapError msg e =
     (case e of
        IndexOutOfRange \<Rightarrow> IndexOutOfRange
      | NilPointerDereference \<Rightarrow> NilPointerDereference
      | _ \<Rightarrow> Wrapped msg e)"

definition index :: "'a list \<Rightarrow> nat \<Rightarrow> error + 'a" where
  "index xs i = (if i < length xs then Inr (xs ! i) else Inl IndexOutOfRange)"

text \<open>A loop whose body may fail stops at the first failure.\<close>

fun foldE :: "('s \<Rightarrow> 'a \<Rightarrow> error + 's) \<Rightarrow> 's \<Rightarrow> 'a list \<Rightarrow> error + 's" where
  "foldE f s [] = Inr s"
| "foldE f s (x # xs) = (case f s x of Inl e \<Rightarrow> Inl e | Inr s' \<Rightarrow> foldE f s' xs)"

text \<open>\<open>globals.IsSubset\<close> (internal/globals/utils.go). Go maps are association lists
  here; a lookup is \<open>map_of\<close>.\<close>

definition IsSubset :: "(string \<times> string) list \<Rightarrow> (string \<times> string) list \<Rightarrow> bool" where
  "IsSubset smaller larger =
     list_all (\<lambda>(key, val). map_of larger key = Some val) smaller"

section \<open>Data model of the policy-rule processor\<close>

record GroupVersionKind =
  Group :: string
  Version :: string
  Kind :: string

record GVKR =
  GVK :: GroupVersionKind
  Resource :: string
  Subresource :: string
  Namespaced :: bool
  UsableVerbs :: "string list"

text \<open>\<open>rbacv1.PolicyRule\<close>. Only \<open>len\<close> is ever taken of its slices, so a nil slice and
  an empty one are the same list.\<close>

record PolicyRule =
  Verbs :: "string list"
  APIGroups :: "string list"
  Resources :: "string list"
  ResourceNames :: "string list"
  NonResourceURLs :: "string list"

definition zeroPolicyRule :: PolicyRule where
  "zeroPolicyRule =
     \<lparr>Verbs = [], APIGroups = [], Resources = [], ResourceNames = [], NonResourceURLs = []\<rparr>"

definition zeroGVKR :: GVKR where
  "zeroGVKR =
     \<lparr>GVK = \<lparr>Group = [], Version = [], Kind = []\<rparr>, Resource = [], Subresource = [],
      Namespaced = False, UsableVerbs = []\<rparr>"

text \<open>
  \<open>PolicyRulesProcessorT\<close>. The Go map \<open>ResourcesByGroup\<close> is an association list:
  its order is the order in which \<open>range\<close> visits the groups, which Go leaves
  unspecified, so nothing below depends on a particular order. \<open>ClientList\<close> stands for
  \<open>p.Client.List\<close> on an unstructured list of the given GroupVersionKind: it returns
  the names of the listed objects, or an error.
\<close>

record PolicyRulesProcessorT =
  ResourcesByGroup :: "(string \<times> GVKR list) list"
  ResourceList :: "string list"
  ClientList :: "GroupVersionKind \<Rightarrow> error + string list"

type_synonym RuleMap = "(string \<times> PolicyRule) list"

text \<open>\<open>p.ResourcesByGroup[group]\<close>: a missing key reads as the nil slice.\<close>

definition resourcesOf :: "PolicyRulesProcessorT \<Rightarrow> string \<Rightarrow> GVKR list" where
  "resourcesOf p grp =
     (case map_of (ResourcesByGroup p) grp of None \<Rightarrow> [] | Some l \<Rightarrow> l)"

text \<open>\<open>m[key]\<close> on a map of PolicyRules: a missing key reads as the zero rule.\<close>

definition ruleAt :: "RuleMap \<Rightarrow> string \<Rightarrow> PolicyRule" where
  "ruleAt m key = (case map_of m key of None \<Rightarrow> zeroPolicyRule | Some r \<Rightarrow> r)"

text \<open>The name \<open>resource\<close> or \<open>resource/subresource\<close> of an inventory entry.\<close>

definition gvkrName :: "GVKR \<Rightarrow> string" where
  "gvkrName g = (if Subresource g \<noteq> [] then Resource g @ ''/'' @ Subresource g else Resource g)"

text \<open>\<open>SetResourceList\<close>: the flat list of resource names of the inventory.\<close>

definition SetResourceList :: "(string \<times> GVKR list) list \<Rightarrow> string list" where
  "SetResourceList rbg = concat (map (\<lambda>(grp, resList). map gvkrName resList) rbg)"

section \<open>GetSurvivingVerbs\<close>

text \<open>
  The temporary Go map from verbs to counters is an association list, the counter an
  unbounded integer (a slice cannot be long enough to overflow a 64-bit counter). The
  last loop ranges over the map; the order of the returned slice is therefore
  unspecified in Go, and only its set of elements is used by the callers and below.
\<close>

definition markDenied :: "(string \<times> int) list \<Rightarrow> string \<Rightarrow> (string \<times> int) list" where
  "markDenied tmpMap denyVerbsVal =
     (case map_of tmpMap denyVerbsVal of
        None \<Rightarrow> tmpMap
      | Some n \<Rightarrow> AList.update denyVerbsVal (n + 1) tmpMap)"

definition GetSurvivingVerbs :: "string list \<Rightarrow> string list \<Rightarrow> string list" where
  "GetSurvivingVerbs allowVerbs denyVerbs =
     (let tmpMap = foldl (\<lambda>m allowVerbsVal. AList.update allowVerbsVal 1 m) [] allowVerbs;
          tmpMap = foldl markDenied tmpMap denyVerbs
      in map fst (filter (\<lambda>(tmpMapKey, tmpMapVal). tmpMapVal = 1) tmpMap))"

section \<open>The rule compiler\<close>

subsection \<open>ExpandPolicyRules\<close>

definition canonicalVerbs :: "string list" where
  "canonicalVerbs =
     [''create'', ''delete'', ''deletecollection'', ''get'', ''list'', ''patch'', ''update'', ''watch'']"

text \<open>Step 1: the groups of the new rule.\<close>

definition expandGroups :: "PolicyRulesProcessorT \<Rightarrow> PolicyRule \<Rightarrow> string list" where
  "expandGroups p policyRule =
     (if slices_Contains (APIGroups policyRule) ''*''
      then map fst (ResourcesByGroup p)
      else filter (\<lambda>grp. map_of (ResourcesByGroup p) grp \<noteq> None) (APIGroups policyRule))"

text \<open>Step 2: the resources of the new rule, given the groups of step 1.\<close>

definition expandResources :: "PolicyRulesProcessorT \<Rightarrow> string list \<Rightarrow> PolicyRule \<Rightarrow> string list" where
  "expandResources p newGroups policyRule =
     (if slices_Contains (Resources policyRule) ''*''
      then concat (map (\<lambda>grp. map gvkrName (resourcesOf p grp)) newGroups)
      else filter (\<lambda>resource. slices_Contains (ResourceList p) resource) (Resources policyRule))"

text \<open>
  Step 2.1, the cleanup of the groups. For one resource and one group the innermost
  loop appends the group at the first inventory entry of the group whose \<open>Resource\<close>
  is the resource type (the part of the resource before the first \<open>/\<close>), unless the
  group is already in the list, and then breaks.
\<close>

definition resourceType :: "string \<Rightarrow> string" where
  "resourceType resource = hd (strings_Split resource CHR ''/'')"

definition markGroup :: "PolicyRulesProcessorT \<Rightarrow> string \<Rightarrow> string list \<Rightarrow> string \<Rightarrow> string list" where
  "markGroup p resource newGroupList grp =
     (if list_ex (\<lambda>gvkr. Resource gvkr = resourceType resource) (resourcesOf p grp)
         \<and> \<not> slices_Contains newGroupList grp
      then newGroupList @ [grp] else newGroupList)"

definition cleanupGroups :: "PolicyRulesProcessorT \<Rightarrow> string list \<Rightarrow> string list \<Rightarrow> string list" where
  "cleanupGroups p newResources newGroups =
     foldl (\<lambda>newGroupList resource. foldl (markGroup p resource) newGroupList newGroups)
       [] newResources"

text \<open>One pass of the loop body: \<open>None\<close> is a \<open>continue\<close> that drops the rule.\<close>

definition expandRule :: "PolicyRulesProcessorT \<Rightarrow> PolicyRule \<Rightarrow> PolicyRule option" where
  "expandRule p policyRule =
     (if length (Verbs policyRule) = 0 then None
      else if length (NonResourceURLs policyRule) \<noteq> 0 \<and>
              (length (APIGroups policyRule) \<noteq> 0 \<or> length (Resources policyRule) \<noteq> 0 \<or>
               length (ResourceNames policyRule) \<noteq> 0) then None
      else if length (NonResourceURLs policyRule) = 0 \<and>
              (length (APIGroups policyRule) = 0 \<or> length (Resources policyRule) = 0) then None
      else if length (ResourceNames policyRule) \<noteq> 0 \<and>
              (length (APIGroups policyRule) = 0 \<or> length (Resources policyRule) = 0) then None
      else
        (let newGroups = expandGroups p policyRule;
             newResources = expandResources p newGroups policyRule
         in Some \<lparr>Verbs = (if slices_Contains (Verbs policyRule) ''*''
                           then canonicalVerbs else Verbs policyRule),
                  APIGroups = cleanupGroups p newResources newGroups,
                  Resources = newResources,
                  ResourceNames = ResourceNames policyRule,
                  NonResourceURLs = NonResourceURLs policyRule\<rparr>))"

definition ExpandPolicyRules :: "PolicyRulesProcessorT \<Rightarrow> PolicyRule list \<Rightarrow> PolicyRule list" where
  "ExpandPolicyRules p policyRules = List.map_filter (expandRule p) policyRules"

subsection \<open>StretchPolicyRules\<close>

definition stretchPair :: "PolicyRulesProcessorT \<Rightarrow> PolicyRule \<Rightarrow> string \<Rightarrow> string \<Rightarrow> PolicyRule list" where
  "stretchPair p policyRule resource grp =
     (if \<not> list_ex (\<lambda>gvkr. gvkrName gvkr = resource) (resourcesOf p grp) then []
      else if length (ResourceNames policyRule) \<noteq> 0
      then map (\<lambda>name. \<lparr>Verbs = Verbs policyRule, APIGroups = [grp], Resources = [resource],
                         ResourceNames = [name], NonResourceURLs = []\<rparr>)
             (ResourceNames policyRule)
      else [\<lparr>Verbs = Verbs policyRule, APIGroups = [grp], Resources = [resource],
             ResourceNames = [], NonResourceURLs = []\<rparr>])"

definition stretchRule :: "PolicyRulesProcessorT \<Rightarrow> PolicyRule \<Rightarrow> PolicyRule list" where
  "stretchRule p policyRule =
     (if length (NonResourceURLs policyRule) > 0
      then map (\<lambda>url. \<lparr>Verbs = Verbs policyRule, APIGroups = [], Resources = [],
                        ResourceNames = [], NonResourceURLs = [url]\<rparr>)
             (NonResourceURLs policyRule)
      else concat (map (\<lambda>resource. concat (map (stretchPair p policyRule resource)
                                               (APIGroups policyRule)))
                     (Resources policyRule)))"

definition StretchPolicyRules :: "PolicyRulesProcessorT \<Rightarrow> PolicyRule list \<Rightarrow> PolicyRule list" where
  "StretchPolicyRules p policyRules = concat (map (stretchRule p) policyRules)"

subsection \<open>Slices in memory\<close>

text \<open>
  \<open>GetMapFromStretchedPolicyRules\<close> is the one function of the compiler that writes
  into the backing array of a slice it did not allocate: \<open>append\<close> writes behind the
  stored verbs when their capacity allows it, and \<open>slices.Sort\<close> and
  \<open>slices.Compact\<close> work in place. The rules that \<open>StretchPolicyRules\<close> makes of one
  rule carry the same \<open>Verbs\<close> slice, so these writes are seen at other keys. The
  backing arrays are therefore the entries of a heap, and a slice is the index of its
  array, its length and its capacity; every slice of the compiler begins at the first
  element of its array, and the capacity is the length of the array.
\<close>

record Slice =
  slice_array :: nat
  slice_len :: nat
  slice_cap :: nat

type_synonym Heap = "string list list"

text \<open>
  What the values of the input leave open: the capacity of the \<open>Verbs\<close> slice of the
  rule at a given position of \<open>Spec.Allow\<close> and \<open>Spec.Deny\<close> when the resource reaches
  \<open>SyncTarget\<close> (never below the length, see \<open>newSlice\<close>: a deep copy leaves it at the
  length, a decoder above it), the capacity that \<open>append\<close> gives to the array it allocates
  for a slice of the given capacity and needed length, and whether \<open>slices.Compact\<close>
  zeroes the elements it drops (it does from Go 1.22 on).
\<close>

record GoMemory =
  allowCapacity :: "nat \<Rightarrow> nat"
  denyCapacity :: "nat \<Rightarrow> nat"
  growCapacity :: "nat \<Rightarrow> nat \<Rightarrow> nat"
  compactClears :: bool

definition sliceElems :: "Heap \<Rightarrow> Slice \<Rightarrow> string list" where
  "sliceElems heap s = take (slice_len s) (heap ! slice_array s)"

text \<open>A new array holding \<open>xs\<close>, of the given capacity or of the length of \<open>xs\<close> if that
  is more; the elements behind \<open>xs\<close> are empty strings.\<close>

definition newSlice :: "Heap \<Rightarrow> string list \<Rightarrow> nat \<Rightarrow> Heap \<times> Slice" where
  "newSlice heap xs capacity =
     (let c = max (length xs) capacity
      in (heap @ [xs @ replicate (c - length xs) []],
          \<lparr>slice_array = length heap, slice_len = length xs, slice_cap = c\<rparr>))"

text \<open>\<open>append(s, xs...)\<close>: in the array of \<open>s\<close> when the capacity suffices, else in a
  new array.\<close>

definition goAppend :: "GoMemory \<Rightarrow> Heap \<Rightarrow> Slice \<Rightarrow> string list \<Rightarrow> Heap \<times> Slice" where
  "goAppend mem heap s xs =
     (let n = slice_len s + length xs in
      if n \<le> slice_cap s
      then (heap[slice_array s := sliceElems heap s @ xs @ drop n (heap ! slice_array s)],
            s\<lparr>slice_len := n\<rparr>)
      else newSlice heap (sliceElems heap s @ xs) (growCapacity mem (slice_cap s) n))"

text \<open>\<open>slices.Sort(s)\<close> on strings, in place: Go compares strings bytewise and
  lexicographically, which is the order of \<open>List_Lexorder\<close> over \<open>Char_ord\<close>.\<close>

definition slices_Sort :: "Heap \<Rightarrow> Slice \<Rightarrow> Heap" where
  "slices_Sort heap s =
     heap[slice_array s := sort (sliceElems heap s) @ drop (slice_len s) (heap ! slice_array s)]"

text \<open>\<open>slices.Compact(s)\<close>, in place: the elements that differ from their predecessor
  move to the front; the positions behind them, up to the old length, keep their
  elements or are zeroed.\<close>

definition slices_Compact :: "GoMemory \<Rightarrow> Heap \<Rightarrow> Slice \<Rightarrow> Heap \<times> Slice" where
  "slices_Compact mem heap s =
     (let xs = sliceElems heap s; ys = remdups_adj xs
      in (heap[slice_array s :=
                 ys @ (if compactClears mem then replicate (length xs - length ys) []
                       else drop (length ys) xs)
                    @ drop (slice_len s) (heap ! slice_array s)],
          s\<lparr>slice_len := length ys\<rparr>))"

text \<open>A \<open>rbacv1.PolicyRule\<close> in memory: its \<open>Verbs\<close> is a slice of the heap, the other
  fields are never written in place and stay values.\<close>

record SliceRule =
  sr_Verbs :: Slice
  sr_APIGroups :: "string list"
  sr_Resources :: "string list"
  sr_ResourceNames :: "string list"
  sr_NonResourceURLs :: "string list"

type_synonym SliceMap = "(string \<times> SliceRule) list"

definition withVerbs :: "PolicyRule \<Rightarrow> Slice \<Rightarrow> SliceRule" where
  "withVerbs rule s =
     \<lparr>sr_Verbs = s, sr_APIGroups = APIGroups rule, sr_Resources = Resources rule,
      sr_ResourceNames = ResourceNames rule, sr_NonResourceURLs = NonResourceURLs rule\<rparr>"

definition readRule :: "Heap \<Rightarrow> SliceRule \<Rightarrow> PolicyRule" where
  "readRule heap rule =
     \<lparr>Verbs = sliceElems heap (sr_Verbs rule), APIGroups = sr_APIGroups rule,
      Resources = sr_Resources rule, ResourceNames = sr_ResourceNames rule,
      NonResourceURLs = sr_NonResourceURLs rule\<rparr>"

definition readMap :: "Heap \<Rightarrow> SliceMap \<Rightarrow> RuleMap" where
  "readMap heap m = map (\<lambda>(key, rule). (key, readRule heap rule)) m"

text \<open>The rules of \<open>Spec.Allow\<close> or \<open>Spec.Deny\<close> as they lie in memory: each rule has a
  \<open>Verbs\<close> array of its own, of the capacity given for its position in the list.\<close>

definition loadRule ::
  "(nat \<Rightarrow> nat) \<Rightarrow> Heap \<times> (PolicyRule \<times> Slice) list \<Rightarrow> PolicyRule
     \<Rightarrow> Heap \<times> (PolicyRule \<times> Slice) list" where
  "loadRule capacity st rule =
     (let (heap, s) = newSlice (fst st) (Verbs rule) (capacity (length (snd st)))
      in (heap, snd st @ [(rule, s)]))"

definition loadRules ::
  "(nat \<Rightarrow> nat) \<Rightarrow> Heap \<Rightarrow> PolicyRule list \<Rightarrow> Heap \<times> (PolicyRule \<times> Slice) list" where
  "loadRules capacity heap rules = foldl (loadRule capacity) (heap, []) rules"

text \<open>
  \<open>ExpandPolicyRules\<close> and \<open>StretchPolicyRules\<close> with the slices: the rule that
  \<open>expandRule\<close> makes carries the \<open>Verbs\<close> slice of the input rule, or a new array of the
  eight canonical verbs (a composite literal: its capacity is its length); the rules
  that \<open>stretchRule\<close> makes of it carry that same slice.
\<close>

definition expandInMemory ::
  "PolicyRulesProcessorT \<Rightarrow> Heap \<times> (PolicyRule \<times> Slice) list \<Rightarrow> PolicyRule \<times> Slice
     \<Rightarrow> Heap \<times> (PolicyRule \<times> Slice) list" where
  "expandInMemory p st input =
     (case expandRule p (fst input) of
        None \<Rightarrow> st
      | Some newPolicyRule \<Rightarrow>
         if slices_Contains (Verbs (fst input)) ''*''
         then (let (heap, s) = newSlice (fst st) canonicalVerbs (length canonicalVerbs)
               in (heap, snd st @ [(newPolicyRule, s)]))
         else (fst st, snd st @ [(newPolicyRule, snd input)]))"

definition ExpandPolicyRulesInMemory ::
  "PolicyRulesProcessorT \<Rightarrow> Heap \<Rightarrow> (PolicyRule \<times> Slice) list
     \<Rightarrow> Heap \<times> (PolicyRule \<times> Slice) list" where
  "ExpandPolicyRulesInMemory p heap policyRules = foldl (expandInMemory p) (heap, []) policyRules"

definition StretchPolicyRulesInMemory ::
  "PolicyRulesProcessorT \<Rightarrow> (PolicyRule \<times> Slice) list \<Rightarrow> SliceRule list" where
  "StretchPolicyRulesInMemory p policyRules =
     concat (map (\<lambda>(policyRule, s). map (\<lambda>atom. withVerbs atom s) (stretchRule p policyRule))
               policyRules)"

subsection \<open>GetMapFromStretchedPolicyRules\<close>

text \<open>The key of a resource rule: \<open>group#resource#resourceName\<close>, with an empty
  name when the rule names no resource.\<close>

definition resourceKey :: "string \<Rightarrow> string \<Rightarrow> string \<Rightarrow> string" where
  "resourceKey grp resource name = grp @ ''#'' @ resource @ ''#'' @ name"

text \<open>The three statements on \<open>tmp\<close>: \<open>append\<close> of the verbs of the rule to the stored
  verbs, \<open>slices.Sort\<close>, \<open>slices.Compact\<close>. The verbs of the rule are read before
  \<open>append\<close> writes.\<close>

definition mergeVerbs :: "GoMemory \<Rightarrow> Heap \<Rightarrow> Slice \<Rightarrow> Slice \<Rightarrow> Heap \<times> Slice" where
  "mergeVerbs mem heap stored added =
     (let (heap, tmp) = goAppend mem heap stored (sliceElems heap added);
          heap = slices_Sort heap tmp
      in slices_Compact mem heap tmp)"

text \<open>
  The Go map from keys to rules is an association list. One pass of the loop body, on
  the heap and the map: a key met for the first time stores the rule with its slice, a
  key met again stores a rule made of the merged slice.
\<close>

definition storeRule ::
  "GoMemory \<Rightarrow> Heap \<times> SliceMap \<Rightarrow> string \<Rightarrow> SliceRule \<Rightarrow> (Slice \<Rightarrow> SliceRule) \<Rightarrow> Heap \<times> SliceMap" where
  "storeRule mem st key policyRule merged =
     (case map_of (snd st) key of
        Some found \<Rightarrow>
          (let (heap, tmp) = mergeVerbs mem (fst st) (sr_Verbs found) (sr_Verbs policyRule)
           in (heap, AList.update key (merged tmp) (snd st)))
      | None \<Rightarrow> (fst st, AList.update key policyRule (snd st)))"

definition addToMap ::
  "GoMemory \<Rightarrow> Heap \<times> SliceMap \<Rightarrow> SliceRule \<Rightarrow> error + (Heap \<times> SliceMap)" where
  "addToMap mem st policyRule =
     (if length (sr_NonResourceURLs policyRule) \<noteq> 0
      then (let nonResourceUrlMapKey = ''nonresourceurl#'' @ hd (sr_NonResourceURLs policyRule)
            in Inr (storeRule mem st nonResourceUrlMapKey policyRule
                 (\<lambda>tmp. \<lparr>sr_Verbs = tmp, sr_APIGroups = [], sr_Resources = [],
                         sr_ResourceNames = [],
                         sr_NonResourceURLs = sr_NonResourceURLs policyRule\<rparr>)))
      else (case index (sr_APIGroups policyRule) 0 of
              Inl e \<Rightarrow> Inl e
            | Inr grp \<Rightarrow>
               (case index (sr_Resources policyRule) 0 of
                  Inl e \<Rightarrow> Inl e
                | Inr resource \<Rightarrow>
                   (let key = resourceKey grp resource
                          (if length (sr_ResourceNames policyRule) \<noteq> 0
                           then hd (sr_ResourceNames policyRule) else [])
                    in Inr (storeRule mem st key policyRule
                         (\<lambda>tmp. \<lparr>sr_Verbs = tmp,
                                 sr_APIGroups = sr_APIGroups policyRule,
                                 sr_Resources = sr_Resources policyRule,
                                 sr_ResourceNames = sr_ResourceNames policyRule,
                                 sr_NonResourceURLs = []\<rparr>))))))"

definition GetMapFromStretchedPolicyRules ::
  "GoMemory \<Rightarrow> Heap \<Rightarrow> SliceRule list \<Rightarrow> error + (Heap \<times> SliceMap)" where
  "GetMapFromStretchedPolicyRules mem heap policyRules = foldE (addToMap mem) (heap, []) policyRules"

subsection \<open>EvaluateSpecialCases\<close>

text \<open>The inventory entry chosen for the denied resource: the last entry of the
  group whose \<open>Resource\<close> is the resource type, or the zero value when there is none.\<close>

definition findGvkr :: "PolicyRulesProcessorT \<Rightarrow> string \<Rightarrow> string \<Rightarrow> GVKR" where
  "findGvkr p grp resource =
     foldl (\<lambda>tmpGvkr gvkr. if Resource gvkr = resourceType resource then gvkr else tmpGvkr)
       zeroGVKR (resourcesOf p grp)"

definition instanceRule :: "PolicyRule \<Rightarrow> string \<Rightarrow> PolicyRule" where
  "instanceRule broad name =
     \<lparr>Verbs = Verbs broad, APIGroups = APIGroups broad, Resources = Resources broad,
      ResourceNames = [name], NonResourceURLs = []\<rparr>"

definition addInstance :: "string \<Rightarrow> RuleMap \<Rightarrow> string \<Rightarrow> RuleMap" where
  "addInstance key allowMap name =
     AList.update (key @ name) (instanceRule (ruleAt allowMap key) name) allowMap"

definition specialCase :: "PolicyRulesProcessorT \<Rightarrow> RuleMap \<Rightarrow> string \<times> PolicyRule \<Rightarrow> error + RuleMap" where
  "specialCase p allowMap entry =
     (let denyMapkey = fst entry; policyRule = snd entry in
      if strings_HasPrefix denyMapkey ''nonresourceurl'' then Inr allowMap
      else
        (let parts = strings_Split denyMapkey CHR ''#'' in
         case index parts 2 of
           Inl e \<Rightarrow> Inl e
         | Inr name \<Rightarrow>
            if name = [] then Inr allowMap
            else
              (let key = strings_Join (take 2 parts) ''#'' @ ''#'' in
               if map_of allowMap key = None then Inr allowMap
               else
                 (case index (Resources policyRule) 0 of
                    Inl e \<Rightarrow> Inl e
                  | Inr resource \<Rightarrow>
                     (case index (APIGroups policyRule) 0 of
                        Inl e \<Rightarrow> Inl e
                      | Inr grp \<Rightarrow>
                         (case ClientList p (GVK (findGvkr p grp resource)) of
                            Inl e \<Rightarrow> Inl e
                          | Inr names \<Rightarrow>
                             Inr (AList.delete key (foldl (addInstance key) allowMap names))))))))"

definition EvaluateSpecialCases :: "PolicyRulesProcessorT \<Rightarrow> RuleMap \<Rightarrow> RuleMap \<Rightarrow> error + RuleMap" where
  "EvaluateSpecialCases p allowMap denyMap = foldE (specialCase p) allowMap denyMap"

subsection \<open>EvaluatePolicyRules\<close>

text \<open>The subtraction at one key, followed by the removal of the entry when no verb
  is left.\<close>

definition subtractVerbs :: "string list \<Rightarrow> RuleMap \<Rightarrow> string \<Rightarrow> RuleMap" where
  "subtractVerbs denyVerbs allowMap key =
     AList.update key
       ((ruleAt allowMap key)\<lparr>Verbs := GetSurvivingVerbs (Verbs (ruleAt allowMap key)) denyVerbs\<rparr>)
       allowMap"

definition dropIfEmpty :: "RuleMap \<Rightarrow> string \<Rightarrow> RuleMap" where
  "dropIfEmpty allowMap key =
     (if length (Verbs (ruleAt allowMap key)) = 0 then AList.delete key allowMap else allowMap)"

text \<open>The body and the whole of the two loops over the allow map that subtract at
  every key with a given prefix. The keys visited are those of the map at loop entry;
  the body changes the entry of the visited key only.\<close>

definition subtractAtPrefix :: "string \<Rightarrow> string list \<Rightarrow> RuleMap \<Rightarrow> string \<Rightarrow> RuleMap" where
  "subtractAtPrefix pre denyVerbs allowMap allowMapKey =
     dropIfEmpty
       (if strings_HasPrefix allowMapKey pre
        then subtractVerbs denyVerbs allowMap allowMapKey else allowMap)
       allowMapKey"

definition subtractPrefix :: "string \<Rightarrow> string list \<Rightarrow> RuleMap \<Rightarrow> RuleMap" where
  "subtractPrefix pre denyVerbs allowMap =
     foldl (subtractAtPrefix pre denyVerbs) allowMap (map fst allowMap)"

definition evaluateDeny :: "RuleMap \<Rightarrow> string \<times> PolicyRule \<Rightarrow> error + RuleMap" where
  "evaluateDeny allowMap entry =
     (let denyMapKey = fst entry; policyRule = snd entry in
      if strings_HasPrefix denyMapKey ''nonresourceurl''
      then (if strings_HasSuffix denyMapKey ''*''
            then Inr (subtractPrefix (strings_TrimSuffix denyMapKey ''*'') (Verbs policyRule) allowMap)
            else Inr (dropIfEmpty (subtractVerbs (Verbs policyRule) allowMap denyMapKey) denyMapKey))
      else
        (case index (strings_Split denyMapKey CHR ''#'') 2 of
           Inl e \<Rightarrow> Inl e
         | Inr name \<Rightarrow>
            if name = [] then Inr (subtractPrefix denyMapKey (Verbs policyRule) allowMap)
            else if map_of allowMap denyMapKey \<noteq> None
            then Inr (dropIfEmpty (subtractVerbs (Verbs policyRule) allowMap denyMapKey) denyMapKey)
            else Inr allowMap))"

definition EvaluatePolicyRules :: "RuleMap \<Rightarrow> RuleMap \<Rightarrow> error + RuleMap" where
  "EvaluatePolicyRules allowMap denyMap = foldE evaluateDeny allowMap denyMap"

subsection \<open>SplitPolicyRules\<close>

text \<open>The scan of the inventory entries of the rule's first group: \<open>Some\<close> of the
  scope of the first entry named as the rule's first resource, \<open>None\<close> when the loop
  ends without a match. The index expression \<open>policyRule.Resources[0]\<close> is evaluated
  at every entry.\<close>

fun findScope :: "PolicyRule \<Rightarrow> GVKR list \<Rightarrow> error + bool option" where
  "findScope policyRule [] = Inr None"
| "findScope policyRule (resource # rest) =
     (case index (Resources policyRule) 0 of
        Inl e \<Rightarrow> Inl e
      | Inr r \<Rightarrow> if r \<noteq> gvkrName resource then findScope policyRule rest
                 else Inr (Some (Namespaced resource)))"

definition splitRule ::
  "PolicyRulesProcessorT \<Rightarrow> PolicyRule list \<times> PolicyRule list \<Rightarrow> PolicyRule
     \<Rightarrow> error + (PolicyRule list \<times> PolicyRule list)" where
  "splitRule p acc policyRule =
     (case index (APIGroups policyRule) 0 of
        Inl e \<Rightarrow> Inl e
      | Inr grp \<Rightarrow>
         (case findScope policyRule (resourcesOf p grp) of
            Inl e \<Rightarrow> Inl e
          | Inr None \<Rightarrow> Inr acc
          | Inr (Some namespaced) \<Rightarrow>
             if namespaced then Inr (fst acc, snd acc @ [policyRule])
             else Inr (fst acc @ [policyRule], snd acc)))"

text \<open>The result is the pair (clusterScopedRules, namespaceScopedRules).\<close>

definition SplitPolicyRules ::
  "PolicyRulesProcessorT \<Rightarrow> PolicyRule list \<Rightarrow> error + (PolicyRule list \<times> PolicyRule list)" where
  "SplitPolicyRules p policyRules = foldE (splitRule p) ([], []) policyRules"

subsection \<open>The compilation in DynamicClusterRoleReconciler.SyncTarget\<close>

text \<open>
  \<open>NewPolicyRuleProcessor\<close>, from the inventory map that \<open>SetResourcesByGroup\<close> builds
  out of the discovery call, and the part of \<open>SyncTarget\<close> that computes the map
  \<open>result\<close> from \<open>resource.Spec.Allow\<close> and \<open>resource.Spec.Deny\<close>.
\<close>

definition NewPolicyRuleProcessor ::
  "(string \<times> GVKR list) list \<Rightarrow> (GroupVersionKind \<Rightarrow> error + string list) \<Rightarrow> PolicyRulesProcessorT" where
  "NewPolicyRuleProcessor rbg cl =
     \<lparr>ResourcesByGroup = rbg, ResourceList = SetResourceList rbg, ClientList = cl\<rparr>"

text \<open>The two maps stay in memory until the evaluation reads them; the evaluation
  itself writes into no array (\<open>GetSurvivingVerbs\<close> returns a new slice), so it is
  by value on the maps as they read once both are built.\<close>

definition compileRules ::
  "GoMemory \<Rightarrow> PolicyRulesProcessorT \<Rightarrow> PolicyRule list \<Rightarrow> PolicyRule list \<Rightarrow> error + RuleMap" where
  "compileRules mem p allow deny =
     (let (heap, allowList) = loadRules (allowCapacity mem) [] allow;
          (heap, denyList) = loadRules (denyCapacity mem) heap deny;
          (heap, expandedAllowList) = ExpandPolicyRulesInMemory p heap allowList;
          (heap, expandedDenyList) = ExpandPolicyRulesInMemory p heap denyList;
          stretchAllowList = StretchPolicyRulesInMemory p expandedAllowList;
          stretchDenyList = StretchPolicyRulesInMemory p expandedDenyList
      in case GetMapFromStretchedPolicyRules mem heap stretchAllowList of
           Inl e \<Rightarrow> Inl e
         | Inr (heap, allowMap) \<Rightarrow>
            (case GetMapFromStretchedPolicyRules mem heap stretchDenyList of
               Inl e \<Rightarrow> Inl e
             | Inr (heap, denyMap) \<Rightarrow>
                (case EvaluateSpecialCases p (readMap heap allowMap) (readMap heap denyMap) of
                   Inl e \<Rightarrow> Inl e
                 | Inr allowMap' \<Rightarrow> EvaluatePolicyRules allowMap' (readMap heap denyMap))))"

section \<open>The binding synthesizer\<close>

subsection \<open>Selectors and objects\<close>

text \<open>
  The selector types of api/v1alpha1. \<open>reflect.Value.IsZero\<close> tells a nil map or slice
  from an empty one, so these fields are options: \<open>None\<close> is nil. Record fields carry
  the name of their type as a prefix, since several types have fields of one name.
\<close>

record MatchRegexT =
  Negative :: bool
  Expression :: string

record MetaSelectorT =
  meta_MatchLabels :: "(string \<times> string) list option"
  meta_MatchAnnotations :: "(string \<times> string) list option"

record NameSelectorT =
  name_MatchList :: "string list option"
  name_MatchRegex :: MatchRegexT

record NamespaceSelectorT =
  ns_MatchLabels :: "(string \<times> string) list option"
  ns_MatchList :: "string list option"
  ns_MatchRegex :: MatchRegexT

record DynamicRoleBindingSourceSubject =
  subject_ApiGroup :: string
  subject_Kind :: string
  subject_MetaSelector :: MetaSelectorT
  subject_NameSelector :: NameSelectorT
  subject_NamespaceSelector :: NamespaceSelectorT

record DynamicRoleBindingSource =
  source_ClusterRole :: string
  source_Subject :: DynamicRoleBindingSourceSubject

record DynamicRoleBindingTargets =
  targets_Name :: string
  targets_Annotations :: "(string \<times> string) list"
  targets_Labels :: "(string \<times> string) list"
  targets_ClusterScoped :: bool
  targets_NamespaceSelector :: NamespaceSelectorT

text \<open>The DynamicRoleBinding resource: the fields of its type and object metadata that
  \<open>SyncTarget\<close> reads, and its spec.\<close>

record DynamicRoleBinding =
  drb_APIVersion :: string
  drb_Kind :: string
  drb_Name :: string
  drb_Namespace :: string
  drb_Source :: DynamicRoleBindingSource
  drb_Targets :: DynamicRoleBindingTargets

record Namespace =
  namespace_Name :: string
  namespace_Labels :: "(string \<times> string) list"

record ServiceAccount =
  sa_Name :: string
  sa_Namespace :: string
  sa_Labels :: "(string \<times> string) list"
  sa_Annotations :: "(string \<times> string) list"

record Subject =
  sub_Kind :: string
  sub_APIGroup :: string
  sub_Name :: string
  sub_Namespace :: string

record RoleRef =
  ref_APIGroup :: string
  ref_Kind :: string
  ref_Name :: string

text \<open>\<open>rbacv1.RoleBinding\<close> and \<open>rbacv1.ClusterRoleBinding\<close> have the same fields (the
  code converts one to the other); a ClusterRoleBinding has the empty namespace.\<close>

record RoleBinding =
  rb_Name :: string
  rb_Namespace :: string
  rb_Labels :: "(string \<times> string) list"
  rb_Annotations :: "(string \<times> string) list"
  rb_RoleRef :: RoleRef
  rb_Subjects :: "Subject list"

type_synonym ClusterRoleBinding = RoleBinding

text \<open>\<open>len\<close> of a slice or map that may be nil, and its elements.\<close>

definition len :: "'a list option \<Rightarrow> nat" where
  "len xs = (case xs of None \<Rightarrow> 0 | Some l \<Rightarrow> length l)"

definition elems :: "'a list option \<Rightarrow> 'a list" where
  "elems xs = (case xs of None \<Rightarrow> [] | Some l \<Rightarrow> l)"

text \<open>\<open>reflect.ValueOf(x).IsZero()\<close> at the types it is used on.\<close>

definition IsZero_MatchRegex :: "MatchRegexT \<Rightarrow> bool" where
  "IsZero_MatchRegex x = (\<not> Negative x \<and> Expression x = [])"

definition IsZero_MetaSelector :: "MetaSelectorT \<Rightarrow> bool" where
  "IsZero_MetaSelector x = (meta_MatchLabels x = None \<and> meta_MatchAnnotations x = None)"

definition IsZero_NameSelector :: "NameSelectorT \<Rightarrow> bool" where
  "IsZero_NameSelector x = (name_MatchList x = None \<and> IsZero_MatchRegex (name_MatchRegex x))"

definition IsZero_NamespaceSelector :: "NamespaceSelectorT \<Rightarrow> bool" where
  "IsZero_NamespaceSelector x =
     (ns_MatchLabels x = None \<and> ns_MatchList x = None \<and> IsZero_MatchRegex (ns_MatchRegex x))"

subsection \<open>The cluster client and the library\<close>

text \<open>The calls that change the cluster. A run of \<open>SyncTarget\<close> is described by the
  list of the calls it makes, in order, and by the error it returns.\<close>

datatype WriteOp =
    UpdateClusterRoleBinding ClusterRoleBinding
  | UpdateRoleBinding RoleBinding
  | DeleteRoleBinding RoleBinding

text \<open>
  The answers of the cluster to the calls of \<open>SyncTarget\<close>. \<open>getClusterRoleBinding\<close> is
  \<open>r.Get\<close> by name: \<open>Inr None\<close> is the NotFound error, which leaves the object passed
  to \<open>Get\<close> at its zero value; an object that is found has metadata of the cluster and
  is never the zero value. \<open>writeResult\<close> is the error, if any, of an \<open>Update\<close> or
  \<open>Delete\<close> call.
\<close>

record Client =
  listNamespaces :: "error + Namespace list"
  listServiceAccounts :: "error + ServiceAccount list"
  listRoleBindings :: "error + RoleBinding list"
  getClusterRoleBinding :: "string \<Rightarrow> error + ClusterRoleBinding option"
  writeResult :: "WriteOp \<Rightarrow> error option"

text \<open>
  Package \<open>regexp\<close>: \<open>Compile\<close> gives an error or the matcher of the expression.
  \<open>GetServiceAccountsBySelectors\<close> may call \<open>MatchString\<close> on the zero value
  \<open>&regexp.Regexp{}\<close>; what that call does is the parameter \<open>matchZeroRegexp\<close>.
\<close>

record Regexp =
  regexp_Compile :: "string \<Rightarrow> error + (string \<Rightarrow> bool)"
  matchZeroRegexp :: "string \<Rightarrow> error + bool"

subsection \<open>Checks of the selectors\<close>

definition boolCount :: "bool \<Rightarrow> nat" where
  "boolCount b = (if b then 1 else 0)"

definition CheckMetaSelector :: "MetaSelectorT \<Rightarrow> error option" where
  "CheckMetaSelector metaSelector =
     (let filledSelectorFields =
            boolCount (len (meta_MatchLabels metaSelector) > 0)
          + boolCount (len (meta_MatchAnnotations metaSelector) > 0)
      in if filledSelectorFields \<noteq> 1
         then Some (Invalid ''only one of the following fields is allowed as metaSelector: matchLabels, matchAnnotations'')
         else None)"

definition CheckNameSelector :: "NameSelectorT \<Rightarrow> error option" where
  "CheckNameSelector nameSelector =
     (let filledSelectorFields =
            boolCount (len (name_MatchList nameSelector) > 0)
          + boolCount (Expression (name_MatchRegex nameSelector) \<noteq> [])
      in if filledSelectorFields \<noteq> 1
         then Some (Invalid ''only one of the following fields is allowed as nameSelector: matchList, matchRegex'')
         else None)"

definition CheckNamespaceSelector :: "NamespaceSelectorT \<Rightarrow> error option" where
  "CheckNamespaceSelector namespaceSelector =
     (let filledSelectorFields =
            boolCount (len (ns_MatchLabels namespaceSelector) > 0)
          + boolCount (len (ns_MatchList namespaceSelector) > 0)
          + boolCount (Expression (ns_MatchRegex namespaceSelector) \<noteq> [])
      in if filledSelectorFields \<noteq> 1
         then Some (Invalid ''only one of the following fields is allowed as namespaceSelector: matchLabels, matchList, matchRegex'')
         else None)"

subsection \<open>FilterNamespaceListBySelector\<close>

text \<open>The names that one namespace adds to the result: each of the three checks of
  the loop body may append the name.\<close>

definition namespaceMatches ::
  "NamespaceSelectorT \<Rightarrow> (string \<Rightarrow> bool) \<Rightarrow> Namespace \<Rightarrow> string list" where
  "namespaceMatches namespaceSelector matchRegex ns =
     (if len (ns_MatchLabels namespaceSelector) > 0
         \<and> IsSubset (elems (ns_MatchLabels namespaceSelector)) (namespace_Labels ns)
      then [namespace_Name ns] else [])
     @ (if len (ns_MatchList namespaceSelector) > 0
           \<and> slices_Contains (elems (ns_MatchList namespaceSelector)) (namespace_Name ns)
        then [namespace_Name ns] else [])
     @ (if Expression (ns_MatchRegex namespaceSelector) \<noteq> []
        then (let namespaceMatched = matchRegex (namespace_Name ns) in
              if \<not> namespaceMatched \<and> Negative (ns_MatchRegex namespaceSelector)
              then [namespace_Name ns]
              else if namespaceMatched \<and> \<not> Negative (ns_MatchRegex namespaceSelector)
              then [namespace_Name ns] else [])
        else [])"

definition FilterNamespaceListBySelector ::
  "Regexp \<Rightarrow> Namespace list \<Rightarrow> NamespaceSelectorT \<Rightarrow> error + string list" where
  "FilterNamespaceListBySelector re namespaceList namespaceSelector =
     (if IsZero_NamespaceSelector namespaceSelector
      then Inr (map namespace_Name namespaceList)
      else
        (case CheckNamespaceSelector namespaceSelector of
           Some e \<Rightarrow> Inl e
         | None \<Rightarrow>
            (case (if Expression (ns_MatchRegex namespaceSelector) \<noteq> []
                   then regexp_Compile re (Expression (ns_MatchRegex namespaceSelector))
                   else Inr (\<lambda>s. False)) of
               Inl e \<Rightarrow> Inl e
             | Inr matchRegex \<Rightarrow>
                Inr (concat (map (namespaceMatches namespaceSelector matchRegex) namespaceList)))))"

subsection \<open>GetServiceAccountsBySelectors\<close>

text \<open>The first check of the loop body: the service account passes when the list of
  namespaces is empty or contains its namespace.\<close>

definition passesNamespaceFilter :: "string list \<Rightarrow> ServiceAccount \<Rightarrow> bool" where
  "passesNamespaceFilter filteredNamespaceList serviceAccount =
     (\<not> (length filteredNamespaceList \<noteq> 0
          \<and> \<not> slices_Contains filteredNamespaceList (sa_Namespace serviceAccount)))"

text \<open>The rest of the loop body: whether the service account is appended. The matcher
  is \<open>None\<close> when no expression was compiled and \<open>matchRegex\<close> is the zero value.\<close>

definition selectedBySubject ::
  "Regexp \<Rightarrow> (string \<Rightarrow> bool) option \<Rightarrow> DynamicRoleBindingSourceSubject \<Rightarrow> ServiceAccount
     \<Rightarrow> error + bool" where
  "selectedBySubject re matchRegex subject serviceAccount =
     (case meta_MatchLabels (subject_MetaSelector subject) of
        Some labels \<Rightarrow> Inr (IsSubset labels (sa_Labels serviceAccount))
      | None \<Rightarrow>
         (case meta_MatchAnnotations (subject_MetaSelector subject) of
            Some annotations \<Rightarrow> Inr (IsSubset annotations (sa_Annotations serviceAccount))
          | None \<Rightarrow>
             if len (name_MatchList (subject_NameSelector subject)) > 0
             then Inr (slices_Contains (elems (name_MatchList (subject_NameSelector subject)))
                         (sa_Name serviceAccount))
             else
               (case (case matchRegex of
                        None \<Rightarrow> matchZeroRegexp re (sa_Name serviceAccount)
                      | Some f \<Rightarrow> Inr (f (sa_Name serviceAccount))) of
                  Inl e \<Rightarrow> Inl e
                | Inr nameMatched \<Rightarrow>
                   Inr ((\<not> nameMatched \<and> Negative (name_MatchRegex (subject_NameSelector subject)))
                        \<or> (nameMatched \<and> \<not> Negative (name_MatchRegex (subject_NameSelector subject)))))))"

definition selectServiceAccount ::
  "Regexp \<Rightarrow> (string \<Rightarrow> bool) option \<Rightarrow> string list \<Rightarrow> DynamicRoleBindingSourceSubject
     \<Rightarrow> ServiceAccount list \<Rightarrow> ServiceAccount \<Rightarrow> error + ServiceAccount list" where
  "selectServiceAccount re matchRegex filteredNamespaceList subject items serviceAccount =
     (if \<not> passesNamespaceFilter filteredNamespaceList serviceAccount then Inr items
      else (case selectedBySubject re matchRegex subject serviceAccount of
              Inl e \<Rightarrow> Inl e
            | Inr selected \<Rightarrow> Inr (if selected then items @ [serviceAccount] else items)))"

definition GetServiceAccountsBySelectors ::
  "Regexp \<Rightarrow> Client \<Rightarrow> string list \<Rightarrow> DynamicRoleBindingSourceSubject
     \<Rightarrow> error + ServiceAccount list" where
  "GetServiceAccountsBySelectors re cl filteredNamespaceList subject =
     (case listServiceAccounts cl of
        Inl e \<Rightarrow> Inl e
      | Inr tmpServiceAccountList \<Rightarrow>
         if \<not> IsZero_NameSelector (subject_NameSelector subject)
            \<and> \<not> IsZero_MetaSelector (subject_MetaSelector subject)
         then Inl (Invalid ''nameSelector and labelSelector are mutually exclusive'')
         else
           (case (if \<not> IsZero_MetaSelector (subject_MetaSelector subject)
                  then CheckMetaSelector (subject_MetaSelector subject) else None) of
              Some e \<Rightarrow> Inl e
            | None \<Rightarrow>
               (case (if \<not> IsZero_NameSelector (subject_NameSelector subject)
                      then CheckNameSelector (subject_NameSelector subject) else None) of
                  Some e \<Rightarrow> Inl e
                | None \<Rightarrow>
                   (case (if Expression (name_MatchRegex (subject_NameSelector subject)) \<noteq> []
                          then map_sum id Some
                                 (regexp_Compile re
                                    (Expression (name_MatchRegex (subject_NameSelector subject))))
                          else Inr None) of
                      Inl e \<Rightarrow> Inl e
                    | Inr matchRegex \<Rightarrow>
                       foldE (selectServiceAccount re matchRegex filteredNamespaceList subject)
                         [] tmpServiceAccountList))))"

subsection \<open>DynamicRoleBindingReconciler.SyncTarget\<close>

definition referenceAnnotations :: "DynamicRoleBinding \<Rightarrow> (string \<times> string) list" where
  "referenceAnnotations resource =
     [(''kuberbac.prosimcorp.com/owner-apiversion'', drb_APIVersion resource),
      (''kuberbac.prosimcorp.com/owner-kind'', drb_Kind resource),
      (''kuberbac.prosimcorp.com/owner-name'', drb_Name resource),
      (''kuberbac.prosimcorp.com/owner-namespace'', drb_Namespace resource)]"

text \<open>\<open>maps.Copy(dst, src)\<close>.\<close>

definition maps_Copy :: "(string \<times> string) list \<Rightarrow> (string \<times> string) list \<Rightarrow> (string \<times> string) list" where
  "maps_Copy dst src = foldl (\<lambda>m (k, v). AList.update k v m) dst src"

text \<open>
  The first part of \<open>SyncTarget\<close>, up to the expanded subjects: the checks of the
  subject, the list of all namespaces, the namespaces of the subject's selector and the
  subjects. It returns the namespace list and the subjects, or the error with which
  \<open>SyncTarget\<close> returns.
\<close>

definition expandSubjects ::
  "Regexp \<Rightarrow> Client \<Rightarrow> DynamicRoleBinding \<Rightarrow> error + (Namespace list \<times> Subject list)" where
  "expandSubjects re cl resource =
     (let subject = source_Subject (drb_Source resource) in
      if \<not> slices_Contains [''ServiceAccount'', ''User'', ''Group''] (subject_Kind subject)
      then Inl (Invalid ''source.subject.kind must be one of the following values: ServiceAccount, User, Group'')
      else if slices_Contains [''Group'', ''User''] (subject_Kind subject)
              \<and> (\<not> IsZero_NamespaceSelector (subject_NamespaceSelector subject)
                   \<or> \<not> IsZero_MetaSelector (subject_MetaSelector subject))
      then Inl (Invalid ''namespaceSelector and labelSelector are only allowed for ServiceAccount subjects'')
      else
        (case listNamespaces cl of
           Inl e \<Rightarrow> Inl e
         | Inr namespaceList \<Rightarrow>
            (case FilterNamespaceListBySelector re namespaceList (subject_NamespaceSelector subject) of
               Inl e \<Rightarrow> Inl e
             | Inr subjectFilteredNamespaces \<Rightarrow>
                if slices_Contains [''Group'', ''User''] (subject_Kind subject)
                then
                  (if \<not> IsZero_MatchRegex (name_MatchRegex (subject_NameSelector subject))
                   then Inl (Invalid ''MatchRegex nameSelector is not allowed for subjects: Group, User'')
                   else if name_MatchList (subject_NameSelector subject) = None
                   then Inl (Invalid ''MatchList nameSelector is required for subjects: Group, User'')
                   else Inr (namespaceList,
                          map (\<lambda>listItem. \<lparr>sub_Kind = subject_Kind subject,
                                              sub_APIGroup = subject_ApiGroup subject,
                                              sub_Name = listItem, sub_Namespace = []\<rparr>)
                            (elems (name_MatchList (subject_NameSelector subject)))))
                else
                  (case GetServiceAccountsBySelectors re cl subjectFilteredNamespaces subject of
                     Inl e \<Rightarrow> Inl (wrapError ''error getting selected ServiceAccounts'' e)
                   | Inr serviceAccounts \<Rightarrow>
                      Inr (namespaceList,
                        map (\<lambda>serviceAccount. \<lparr>sub_Kind = ''ServiceAccount'',
                                                 sub_APIGroup = subject_ApiGroup subject,
                                                 sub_Name = sa_Name serviceAccount,
                                                 sub_Namespace = sa_Namespace serviceAccount\<rparr>)
                          serviceAccounts)))))"

text \<open>The binding that \<open>SyncTarget\<close> writes: \<open>clusterRoleBindingResource\<close>, and
  \<open>roleBindingResource\<close> after \<open>SetNamespace\<close>.\<close>

definition bindingResource :: "DynamicRoleBinding \<Rightarrow> Subject list \<Rightarrow> string \<Rightarrow> RoleBinding" where
  "bindingResource resource expandedSubjects ns =
     \<lparr>rb_Name = targets_Name (drb_Targets resource),
      rb_Namespace = ns,
      rb_Labels = targets_Labels (drb_Targets resource),
      rb_Annotations = maps_Copy (targets_Annotations (drb_Targets resource))
                         (referenceAnnotations resource),
      rb_RoleRef = \<lparr>ref_APIGroup = ''rbac.authorization.k8s.io'', ref_Kind = ''ClusterRole'',
                    ref_Name = source_ClusterRole (drb_Source resource)\<rparr>,
      rb_Subjects = expandedSubjects\<rparr>"

text \<open>The branch of a cluster-scoped target.\<close>

definition syncClusterScoped ::
  "Client \<Rightarrow> DynamicRoleBinding \<Rightarrow> Subject list \<Rightarrow> WriteOp list \<times> error option" where
  "syncClusterScoped cl resource expandedSubjects =
     (case getClusterRoleBinding cl (targets_Name (drb_Targets resource)) of
        Inl e \<Rightarrow> ([], Some e)
      | Inr tmpClusterRoleBindingResource \<Rightarrow>
         (case tmpClusterRoleBindingResource of
            Some found \<Rightarrow>
              if \<not> IsSubset (referenceAnnotations resource) (rb_Annotations found)
              then ([], None)
              else (let op = UpdateClusterRoleBinding (bindingResource resource expandedSubjects [])
                    in ([op], writeResult cl op))
          | None \<Rightarrow>
              (let op = UpdateClusterRoleBinding (bindingResource resource expandedSubjects [])
               in ([op], writeResult cl op))))"

text \<open>
  The two loops of the namespaced branch. Their state is the list of calls made so far
  and the variable \<open>err\<close>, which every call overwrites. The first loop writes the
  role-binding in a target namespace unless a listed role-binding of that name and
  namespace lacks the annotations to write.
\<close>

definition roleBindingFound :: "RoleBinding \<Rightarrow> RoleBinding list \<Rightarrow> string \<Rightarrow> bool" where
  "roleBindingFound roleBindingResource existentRoleBindingList ns =
     list_ex (\<lambda>roleBinding.
         \<not> (rb_Namespace roleBinding \<noteq> ns \<or> rb_Name roleBinding \<noteq> rb_Name roleBindingResource)
         \<and> \<not> IsSubset (rb_Annotations roleBindingResource) (rb_Annotations roleBinding))
       existentRoleBindingList"

definition upsertRoleBinding ::
  "Client \<Rightarrow> DynamicRoleBinding \<Rightarrow> Subject list \<Rightarrow> RoleBinding list
     \<Rightarrow> WriteOp list \<times> error option \<Rightarrow> string \<Rightarrow> WriteOp list \<times> error option" where
  "upsertRoleBinding cl resource expandedSubjects existentRoleBindingList state ns =
     (let roleBindingResource = bindingResource resource expandedSubjects ns
      in if roleBindingFound roleBindingResource existentRoleBindingList ns then state
         else (fst state @ [UpdateRoleBinding roleBindingResource],
               writeResult cl (UpdateRoleBinding roleBindingResource)))"

definition reapRoleBinding ::
  "Client \<Rightarrow> DynamicRoleBinding \<Rightarrow> string list
     \<Rightarrow> WriteOp list \<times> error option \<Rightarrow> RoleBinding \<Rightarrow> WriteOp list \<times> error option" where
  "reapRoleBinding cl resource targetNamespacesComplementaryStrList state roleBinding =
     (let delete = IsSubset (referenceAnnotations resource) (rb_Annotations roleBinding)
      in if delete \<and> slices_Contains targetNamespacesComplementaryStrList (rb_Namespace roleBinding)
         then (fst state @ [DeleteRoleBinding roleBinding],
               map_option (wrapError ''error deleting not needed rolebindings'')
                 (writeResult cl (DeleteRoleBinding roleBinding)))
         else state)"

definition syncNamespaced ::
  "Regexp \<Rightarrow> Client \<Rightarrow> DynamicRoleBinding \<Rightarrow> Namespace list \<Rightarrow> Subject list
     \<Rightarrow> WriteOp list \<times> error option" where
  "syncNamespaced re cl resource namespaceList expandedSubjects =
     (case listRoleBindings cl of
        Inl e \<Rightarrow> ([], Some e)
      | Inr existentRoleBindingList \<Rightarrow>
         (case FilterNamespaceListBySelector re namespaceList
                 (targets_NamespaceSelector (drb_Targets resource)) of
            Inl e \<Rightarrow> ([], Some e)
          | Inr targetFilteredNamespaces \<Rightarrow>
             (let written = foldl (upsertRoleBinding cl resource expandedSubjects existentRoleBindingList)
                              ([], None) targetFilteredNamespaces;
                  targetNamespacesComplementaryStrList =
                    map namespace_Name
                      (filter (\<lambda>ns. \<not> slices_Contains targetFilteredNamespaces (namespace_Name ns))
                         namespaceList)
              in foldl (reapRoleBinding cl resource targetNamespacesComplementaryStrList)
                   written existentRoleBindingList)))"

definition SyncTarget ::
  "Regexp \<Rightarrow> Client \<Rightarrow> DynamicRoleBinding \<Rightarrow> WriteOp list \<times> error option" where
  "SyncTarget re cl resource =
     (case expandSubjects re cl resource of
        Inl e \<Rightarrow> ([], Some e)
      | Inr (namespaceList, expandedSubjects) \<Rightarrow>
         if targets_ClusterScoped (drb_Targets resource)
         then syncClusterScoped cl resource expandedSubjects
         else syncNamespaced re cl resource namespaceList expandedSubjects)"

section \<open>The DynamicClusterRole reconciler\<close>

subsection \<open>SetResourcesByGroup\<close>

text \<open>An entry of the discovery answer: a \<open>group/version\<close> header (the version alone
  for the core group) and the resources under it.\<close>

record APIResource =
  api_Name :: string
  api_Kind :: string
  api_Namespaced :: bool
  api_Verbs :: "string list"

definition toGVKR :: "string \<Rightarrow> string \<Rightarrow> APIResource \<Rightarrow> GVKR" where
  "toGVKR grp version apiResource =
     (let resourceSubResource = strings_Split (api_Name apiResource) CHR ''/'' in
      \<lparr>GVK = \<lparr>Group = grp, Version = version, Kind = api_Kind apiResource\<rparr>,
       Resource = hd resourceSubResource,
       Subresource = (if length resourceSubResource > 1
                      then strings_Join (tl resourceSubResource) ''/'' else []),
       Namespaced = api_Namespaced apiResource,
       UsableVerbs = api_Verbs apiResource\<rparr>)"

text \<open>The body of the outer loop: the list of the group is reset and then filled with
  the resources of this entry.\<close>

definition addResourcesList ::
  "(string \<times> GVKR list) list \<Rightarrow> string \<times> APIResource list \<Rightarrow> (string \<times> GVKR list) list" where
  "addResourcesList resourcesByGroup resourcesLists =
     (let groupVersion = strings_Split (fst resourcesLists) CHR ''/'';
          grp = (if length groupVersion = 2 then hd groupVersion else []);
          version = (if length groupVersion = 2 then groupVersion ! 1 else hd groupVersion)
      in AList.update grp (map (toGVKR grp version) (snd resourcesLists)) resourcesByGroup)"

definition SetResourcesByGroup :: "(string \<times> APIResource list) list \<Rightarrow> (string \<times> GVKR list) list" where
  "SetResourcesByGroup apiGroupResourcesLists = foldl addResourcesList [] apiGroupResourcesLists"

subsection \<open>Resources, cluster roles and the client\<close>

record TargetT =
  target_Name :: string
  target_Annotations :: "(string \<times> string) list"
  target_Labels :: "(string \<times> string) list"
  target_SeparateScopes :: bool

record Condition =
  cond_Type :: string
  cond_Status :: string
  cond_Reason :: string

text \<open>The DynamicClusterRole resource. \<open>dcr_DeletionTimestamp\<close> is \<open>None\<close> when the
  deletion timestamp is zero.\<close>

record DynamicClusterRole =
  dcr_APIVersion :: string
  dcr_Kind :: string
  dcr_Name :: string
  dcr_Namespace :: string
  dcr_DeletionTimestamp :: "string option"
  dcr_Finalizers :: "string list"
  dcr_SynchronizationTime :: string
  dcr_Target :: TargetT
  dcr_Allow :: "PolicyRule list"
  dcr_Deny :: "PolicyRule list"
  dcr_Conditions :: "Condition list"

record ClusterRole =
  cr_Name :: string
  cr_Annotations :: "(string \<times> string) list"
  cr_Labels :: "(string \<times> string) list"
  cr_Rules :: "PolicyRule list"

datatype RoleWriteOp =
    UpdateSource DynamicClusterRole
  | UpdateStatus DynamicClusterRole
  | UpdateClusterRole ClusterRole
  | DeleteClusterRole ClusterRole

text \<open>
  The answers of the cluster to the calls of the reconciler: \<open>getSource\<close> is \<open>r.Get\<close> of
  the resource (\<open>Inr None\<close> for NotFound), \<open>discovery\<close> is \<open>ServerGroupsAndResources\<close>,
  \<open>listObjects\<close> lists the names of the objects of a kind, \<open>roleWriteResult\<close> is the error
  of an \<open>Update\<close> or \<open>Delete\<close> call (for \<open>Delete\<close>, after \<open>client.IgnoreNotFound\<close>).
\<close>

record RoleClient =
  getSource :: "string \<Rightarrow> error + DynamicClusterRole option"
  discovery :: "error + (string \<times> APIResource list) list"
  listObjects :: "GroupVersionKind \<Rightarrow> error + string list"
  listClusterRoles :: "error + ClusterRole list"
  roleWriteResult :: "RoleWriteOp \<Rightarrow> error option"

definition patchFinalizer :: string where
  "patchFinalizer = ''kuberbac.prosimcorp.com/finalizer''"

text \<open>\<open>controllerutil.ContainsFinalizer\<close>, \<open>RemoveFinalizer\<close> and \<open>AddFinalizer\<close>.\<close>

definition ContainsFinalizer :: "DynamicClusterRole \<Rightarrow> string \<Rightarrow> bool" where
  "ContainsFinalizer resource finalizer = (finalizer \<in> set (dcr_Finalizers resource))"

definition RemoveFinalizer :: "DynamicClusterRole \<Rightarrow> string \<Rightarrow> DynamicClusterRole" where
  "RemoveFinalizer resource finalizer =
     resource\<lparr>dcr_Finalizers := filter (\<lambda>f. f \<noteq> finalizer) (dcr_Finalizers resource)\<rparr>"

definition AddFinalizer :: "DynamicClusterRole \<Rightarrow> string \<Rightarrow> DynamicClusterRole" where
  "AddFinalizer resource finalizer =
     (if finalizer \<in> set (dcr_Finalizers resource) then resource
      else resource\<lparr>dcr_Finalizers := dcr_Finalizers resource @ [finalizer]\<rparr>)"

text \<open>
  Modelled from the spec: \<open>globals.NewCondition\<close>, \<open>globals.UpdateCondition\<close> and the
  condition constants are not among the sources. Both \<open>UpdateConditionSuccess\<close> and
  \<open>UpdateConditionKubernetesApiCallFailure\<close> set the condition \<open>ResourceSynced\<close> with
  status \<open>True\<close>; the reason is \<open>TargetSynced\<close> or \<open>KubernetesApiCallError\<close>. The
  condition replaces the condition of its type, or is added.
\<close>

definition UpdateCondition :: "Condition list \<Rightarrow> Condition \<Rightarrow> Condition list" where
  "UpdateCondition conditions condition =
     (if list_ex (\<lambda>c. cond_Type c = cond_Type condition) conditions
      then map (\<lambda>c. if cond_Type c = cond_Type condition then condition else c) conditions
      else conditions @ [condition])"

definition UpdateConditionSuccess :: "DynamicClusterRole \<Rightarrow> DynamicClusterRole" where
  "UpdateConditionSuccess dynamicClusterRole =
     dynamicClusterRole\<lparr>dcr_Conditions :=
       UpdateCondition (dcr_Conditions dynamicClusterRole)
         \<lparr>cond_Type = ''ResourceSynced'', cond_Status = ''True'', cond_Reason = ''TargetSynced''\<rparr>\<rparr>"

definition UpdateConditionKubernetesApiCallFailure :: "DynamicClusterRole \<Rightarrow> DynamicClusterRole" where
  "UpdateConditionKubernetesApiCallFailure dynamicClusterRole =
     dynamicClusterRole\<lparr>dcr_Conditions :=
       UpdateCondition (dcr_Conditions dynamicClusterRole)
         \<lparr>cond_Type = ''ResourceSynced'', cond_Status = ''True'',
          cond_Reason = ''KubernetesApiCallError''\<rparr>\<rparr>"

subsection \<open>DynamicClusterRoleReconciler.SyncTarget and DeleteTargets\<close>

definition roleReferenceAnnotations :: "DynamicClusterRole \<Rightarrow> (string \<times> string) list" where
  "roleReferenceAnnotations resource =
     [(''kuberbac.prosimcorp.com/owner-apiversion'', dcr_APIVersion resource),
      (''kuberbac.prosimcorp.com/owner-kind'', dcr_Kind resource),
      (''kuberbac.prosimcorp.com/owner-name'', dcr_Name resource),
      (''kuberbac.prosimcorp.com/owner-namespace'', dcr_Namespace resource)]"

definition clusterRoleResource :: "DynamicClusterRole \<Rightarrow> string \<Rightarrow> PolicyRule list \<Rightarrow> ClusterRole" where
  "clusterRoleResource resource name rules =
     \<lparr>cr_Name = name, cr_Annotations = roleReferenceAnnotations resource,
      cr_Labels = target_Labels (dcr_Target resource), cr_Rules = rules\<rparr>"

text \<open>The loop that updates the cluster roles stops at the first error.\<close>

fun updateClusterRoles :: "RoleClient \<Rightarrow> ClusterRole list \<Rightarrow> RoleWriteOp list \<times> error option" where
  "updateClusterRoles cl [] = ([], None)"
| "updateClusterRoles cl (clusterRole # rest) =
     (case roleWriteResult cl (UpdateClusterRole clusterRole) of
        Some e \<Rightarrow> ([UpdateClusterRole clusterRole], Some (wrapError ''error updating ClusterRole'' e))
      | None \<Rightarrow> (let r = updateClusterRoles cl rest
                 in (UpdateClusterRole clusterRole # fst r, snd r)))"

text \<open>\<open>SyncTarget\<close> of the DynamicClusterRole reconciler. The rules of a cluster role
  are the values of the compiled map (\<open>maps.Values\<close>, in the order of the map).\<close>

definition SyncTargetRole ::
  "GoMemory \<Rightarrow> RoleClient \<Rightarrow> DynamicClusterRole \<Rightarrow> RoleWriteOp list \<times> error option" where
  "SyncTargetRole mem cl resource =
     (case discovery cl of
        Inl e \<Rightarrow> ([], Some (wrapError ''error generating PolicyRulesProcessor'' e))
      | Inr apiGroupResourcesLists \<Rightarrow>
         (let policyRulesProcessor =
                NewPolicyRuleProcessor (SetResourcesByGroup apiGroupResourcesLists) (listObjects cl)
          in case compileRules mem policyRulesProcessor (dcr_Allow resource) (dcr_Deny resource) of
               Inl e \<Rightarrow> ([], Some (wrapError ''error evaluating especial cases'' e))
             | Inr result \<Rightarrow>
                if target_SeparateScopes (dcr_Target resource)
                then (case SplitPolicyRules policyRulesProcessor (map snd result) of
                        Inl e \<Rightarrow> ([], Some e)
                      | Inr scoped \<Rightarrow>
                         updateClusterRoles cl
                           [clusterRoleResource resource
                              (target_Name (dcr_Target resource) @ ''-cluster'') (fst scoped),
                            clusterRoleResource resource
                              (target_Name (dcr_Target resource) @ ''-namespace'') (snd scoped)])
                else updateClusterRoles cl
                       [clusterRoleResource resource (target_Name (dcr_Target resource))
                          (map snd result)]))"

text \<open>\<open>DeleteTargets\<close>: every listed cluster role whose annotations contain the
  reference annotations is deleted; the errors are joined.\<close>

definition deleteTarget ::
  "RoleClient \<Rightarrow> DynamicClusterRole \<Rightarrow> RoleWriteOp list \<times> error list \<Rightarrow> ClusterRole
     \<Rightarrow> RoleWriteOp list \<times> error list" where
  "deleteTarget cl resource state clusterRole =
     (if IsSubset (roleReferenceAnnotations resource) (cr_Annotations clusterRole)
      then (fst state @ [DeleteClusterRole clusterRole],
            (case roleWriteResult cl (DeleteClusterRole clusterRole) of
               None \<Rightarrow> snd state
             | Some e \<Rightarrow> snd state @ [wrapError ''error deleting ClusterRoleBinding'' e]))
      else state)"

definition DeleteTargets :: "RoleClient \<Rightarrow> DynamicClusterRole \<Rightarrow> RoleWriteOp list \<times> error list" where
  "DeleteTargets cl resource =
     (case listClusterRoles cl of
        Inl e \<Rightarrow> ([], [e])
      | Inr clusterRoleList \<Rightarrow> foldl (deleteTarget cl resource) ([], []) clusterRoleList)"

subsection \<open>DynamicClusterRoleReconciler.Reconcile\<close>

text \<open>
  The result of a pass: the calls made that change the cluster, the delay of the next
  pass (\<open>result.RequeueAfter\<close>, zero when none is asked for) and the returned error.
  \<open>parseDuration\<close> is \<open>time.ParseDuration\<close>, \<open>mem\<close> what the compiler needs to know of the
  memory. After the finalizer is in place the function
  defers the update of the status: that update is the last call of the pass, also when
  \<open>SyncTarget\<close> panics, and its error is the one returned, unless the pass panics.
\<close>

definition isPanic :: "error \<Rightarrow> bool" where
  "isPanic e = (e = IndexOutOfRange \<or> e = NilPointerDereference)"

definition finishPass ::
  "RoleClient \<Rightarrow> RoleWriteOp list \<Rightarrow> DynamicClusterRole \<Rightarrow> int \<Rightarrow> error option
     \<Rightarrow> RoleWriteOp list \<times> int \<times> error option" where
  "finishPass cl ops resource requeueAfter raised =
     (ops @ [UpdateStatus resource], requeueAfter,
      (case raised of
         Some e \<Rightarrow> if isPanic e then Some e else roleWriteResult cl (UpdateStatus resource)
       | None \<Rightarrow> roleWriteResult cl (UpdateStatus resource)))"

definition synchronize ::
  "GoMemory \<Rightarrow> (string \<Rightarrow> error + int) \<Rightarrow> RoleClient \<Rightarrow> RoleWriteOp list \<Rightarrow> DynamicClusterRole
     \<Rightarrow> RoleWriteOp list \<times> int \<times> error option" where
  "synchronize mem parseDuration cl ops resource =
     (case parseDuration (dcr_SynchronizationTime resource) of
        Inl e \<Rightarrow> finishPass cl ops resource 0 (Some e)
      | Inr RequeueTime \<Rightarrow>
         (let synced = SyncTargetRole mem cl resource in
          case snd synced of
            Some e \<Rightarrow>
              finishPass cl (ops @ fst synced)
                (if isPanic e then resource else UpdateConditionKubernetesApiCallFailure resource)
                RequeueTime (Some e)
          | None \<Rightarrow>
              finishPass cl (ops @ fst synced) (UpdateConditionSuccess resource) RequeueTime None))"

definition Reconcile ::
  "GoMemory \<Rightarrow> (string \<Rightarrow> error + int) \<Rightarrow> RoleClient \<Rightarrow> string
     \<Rightarrow> RoleWriteOp list \<times> int \<times> error option" where
  "Reconcile mem parseDuration cl req =
     (case getSource cl req of
        Inl e \<Rightarrow> ([], 0, Some e)
      | Inr None \<Rightarrow> ([], 0, None)
      | Inr (Some dynamicClusterRoleResource) \<Rightarrow>
         if dcr_DeletionTimestamp dynamicClusterRoleResource \<noteq> None
         then (if ContainsFinalizer dynamicClusterRoleResource patchFinalizer
               then ([UpdateSource (RemoveFinalizer dynamicClusterRoleResource patchFinalizer)],
                     0, None)
               else ([], 0, None))
         else if \<not> ContainsFinalizer dynamicClusterRoleResource patchFinalizer
         then (let withFinalizer = AddFinalizer dynamicClusterRoleResource patchFinalizer in
               case roleWriteResult cl (UpdateSource withFinalizer) of
                 Some e \<Rightarrow> ([UpdateSource withFinalizer], 0, Some e)
               | None \<Rightarrow> synchronize mem parseDuration cl [UpdateSource withFinalizer] withFinalizer)
         else synchronize mem parseDuration cl [] dynamicClusterRoleResource)"

section \<open>Notions used in the statements\<close>

subsection \<open>Stage C in the words of the specification\<close>

text \<open>
  The specification of the third stage, by value: \<open>Compute the AtomicKey for each
  atomic. Group by key; union verbs across duplicates with sort-then-dedup. Produce a
  map AtomicKey \<rightarrow> AtomicRule\<close>. The key of an atomic rule is
  \<open>group#resource#resourceName\<close> (the name may be empty) or \<open>nonresourceurl#url\<close>. These
  definitions follow the specification, not the source; the statement of claim C4
  compares them with \<open>compileRules\<close>.
\<close>

definition sortCompact :: "string list \<Rightarrow> string list" where
  "sortCompact xs = remdups_adj (sort xs)"

definition atomicKey :: "PolicyRule \<Rightarrow> string" where
  "atomicKey atom =
     (if NonResourceURLs atom \<noteq> [] then ''nonresourceurl#'' @ hd (NonResourceURLs atom)
      else resourceKey (hd (APIGroups atom)) (hd (Resources atom))
             (if ResourceNames atom \<noteq> [] then hd (ResourceNames atom) else []))"

definition keyAndMergeStep :: "RuleMap \<Rightarrow> PolicyRule \<Rightarrow> RuleMap" where
  "keyAndMergeStep m atom =
     (case map_of m (atomicKey atom) of
        None \<Rightarrow> AList.update (atomicKey atom) atom m
      | Some merged \<Rightarrow>
          AList.update (atomicKey atom)
            (atom\<lparr>Verbs := sortCompact (Verbs merged @ Verbs atom)\<rparr>) m)"

definition keyAndMerge :: "PolicyRule list \<Rightarrow> RuleMap" where
  "keyAndMerge atoms = foldl keyAndMergeStep [] atoms"

subsection \<open>The deny entries that subtract at a key\<close>

text \<open>
  The keys of the allow map at which \<open>EvaluatePolicyRules\<close> subtracts the verbs of a
  deny entry, branch by branch: the keys that begin with the key without its \<open>*\<close> for
  a key of a non-resource URL that ends in \<open>*\<close>, the key itself for another key of a
  non-resource URL, the keys that begin with the key when its third part is empty, the
  key itself otherwise.
\<close>

definition subtractsAt :: "string \<times> PolicyRule \<Rightarrow> string \<Rightarrow> bool" where
  "subtractsAt entry allowMapKey =
     (let denyMapKey = fst entry in
      if strings_HasPrefix denyMapKey ''nonresourceurl''
      then (if strings_HasSuffix denyMapKey ''*''
            then strings_HasPrefix allowMapKey (strings_TrimSuffix denyMapKey ''*'')
            else allowMapKey = denyMapKey)
      else
        (case index (strings_Split denyMapKey CHR ''#'') 2 of
           Inl e \<Rightarrow> False
         | Inr name \<Rightarrow>
            if name = [] then strings_HasPrefix allowMapKey denyMapKey
            else allowMapKey = denyMapKey))"


definition survivingAfter :: "RuleMap \<Rightarrow> string \<Rightarrow> string list \<Rightarrow> string list" where
  "survivingAfter denyMap allowMapKey verbs =
     foldl (\<lambda>left entry. if subtractsAt entry allowMapKey
                          then GetSurvivingVerbs left (Verbs (snd entry)) else left)
       verbs denyMap"

subsection \<open>Groups, resources and owners\<close>

text \<open>The group has, in the inventory, an entry whose \<open>Resource\<close> is the resource type
  of one of the given resources.\<close>

definition ownsType :: "PolicyRulesProcessorT \<Rightarrow> string list \<Rightarrow> string \<Rightarrow> bool" where
  "ownsType p resources grp =
     (\<exists>resource \<in> set resources. \<exists>gvkr \<in> set (resourcesOf p grp).
        Resource gvkr = resourceType resource)"


text \<open>Two rules with the same verbs, groups and resources.\<close>

definition sameCore :: "PolicyRule \<Rightarrow> PolicyRule \<Rightarrow> bool" where
  "sameCore a b = (Verbs a = Verbs b \<and> APIGroups a = APIGroups b \<and> Resources a = Resources b)"


text \<open>The ownership predicate: the annotations of the role-binding contain the four
  reference annotations of the source.\<close>

definition ownedBy :: "DynamicRoleBinding \<Rightarrow> RoleBinding \<Rightarrow> bool" where
  "ownedBy resource roleBinding =
     IsSubset (referenceAnnotations resource) (rb_Annotations roleBinding)"

section \<open>A small cluster used to instantiate the theorems\<close>

definition exampleGVKR :: "string \<Rightarrow> string \<Rightarrow> string \<Rightarrow> string \<Rightarrow> bool \<Rightarrow> GVKR" where
  "exampleGVKR grp kind resource subresource namespaced =
     \<lparr>GVK = \<lparr>Group = grp, Version = ''v1'', Kind = kind\<rparr>, Resource = resource,
      Subresource = subresource, Namespaced = namespaced, UsableVerbs = []\<rparr>"

definition exampleInventory :: "(string \<times> GVKR list) list" where
  "exampleInventory =
     [('''', [exampleGVKR '''' ''Pod'' ''pods'' '''' True,
             exampleGVKR '''' ''Pod'' ''pods'' ''log'' True,
             exampleGVKR '''' ''ConfigMap'' ''configmaps'' '''' True,
             exampleGVKR '''' ''Node'' ''nodes'' '''' False]),
      (''apps'', [exampleGVKR ''apps'' ''Deployment'' ''deployments'' '''' True])]"

definition exampleLister :: "GroupVersionKind \<Rightarrow> error + string list" where
  "exampleLister gvk = (if Kind gvk = ''ConfigMap'' then Inr [''a'', ''b'', ''c''] else Inr [])"

definition exampleProcessor :: PolicyRulesProcessorT where
  "exampleProcessor = NewPolicyRuleProcessor exampleInventory exampleLister"

definition resourceRule :: "string list \<Rightarrow> string list \<Rightarrow> string list \<Rightarrow> string list \<Rightarrow> PolicyRule" where
  "resourceRule groups resources names verbs =
     \<lparr>Verbs = verbs, APIGroups = groups, Resources = resources, ResourceNames = names,
      NonResourceURLs = []\<rparr>"

definition urlRule :: "string list \<Rightarrow> string list \<Rightarrow> PolicyRule" where
  "urlRule urls verbs =
     \<lparr>Verbs = verbs, APIGroups = [], Resources = [], ResourceNames = [], NonResourceURLs = urls\<rparr>"

text \<open>The memory of the examples: every \<open>Verbs\<close> slice of the resource has room for
  four verbs (or for its own, when they are more), \<open>append\<close> doubles the capacity, and
  \<open>slices.Compact\<close> zeroes what it drops. In \<open>exactMemory\<close> no slice of the resource has
  room left.\<close>

definition exampleMemory :: GoMemory where
  "exampleMemory =
     \<lparr>allowCapacity = (\<lambda>i. 4), denyCapacity = (\<lambda>i. 4),
      growCapacity = (\<lambda>capacity needed. 2 * capacity), compactClears = True\<rparr>"

definition exactMemory :: GoMemory where
  "exactMemory =
     \<lparr>allowCapacity = (\<lambda>i. 0), denyCapacity = (\<lambda>i. 0),
      growCapacity = (\<lambda>capacity needed. 2 * capacity), compactClears = True\<rparr>"

text \<open>An allow list without wildcards: \<open>watch\<close> on nodes and pods, and \<open>get\<close> on pods.\<close>

definition exampleAllowList :: "PolicyRule list" where
  "exampleAllowList =
     [resourceRule [[]] [''nodes'', ''pods''] [] [''watch''],
      resourceRule [[]] [''pods''] [] [''get'']]"










text \<open>
  A cluster for the binding synthesizer: three namespaces, two service accounts, a
  role-binding of the source in \<open>ns3\<close> and one in \<open>ns4\<close>, a role-binding of somebody
  else in \<open>ns4\<close>, and a cluster-role-binding \<open>example-policy\<close> that does not carry the
  annotations of the source. The source selects the service account \<open>builder\<close> and
  targets the namespace \<open>ns3\<close>.
\<close>

definition exampleRegexp :: Regexp where
  "exampleRegexp =
     \<lparr>regexp_Compile = (\<lambda>expression.
         if expression = ''^kube-'' then Inr (\<lambda>s. take 5 s = ''kube-'')
         else Inl (ApiError ''error parsing regexp'')),
      matchZeroRegexp = (\<lambda>s. Inl NilPointerDereference)\<rparr>"

definition exampleNamespaces :: "Namespace list" where
  "exampleNamespaces =
     [\<lparr>namespace_Name = ''ns1'', namespace_Labels = []\<rparr>,
      \<lparr>namespace_Name = ''ns3'', namespace_Labels = []\<rparr>,
      \<lparr>namespace_Name = ''ns4'', namespace_Labels = []\<rparr>]"

definition exampleServiceAccounts :: "ServiceAccount list" where
  "exampleServiceAccounts =
     [\<lparr>sa_Name = ''builder'', sa_Namespace = ''ns1'', sa_Labels = [], sa_Annotations = []\<rparr>,
      \<lparr>sa_Name = ''default'', sa_Namespace = ''ns3'', sa_Labels = [], sa_Annotations = []\<rparr>]"

definition emptyNamespaceSelector :: NamespaceSelectorT where
  "emptyNamespaceSelector =
     \<lparr>ns_MatchLabels = None, ns_MatchList = None,
      ns_MatchRegex = \<lparr>Negative = False, Expression = []\<rparr>\<rparr>"

definition exampleSubject :: DynamicRoleBindingSourceSubject where
  "exampleSubject =
     \<lparr>subject_ApiGroup = [], subject_Kind = ''ServiceAccount'',
      subject_MetaSelector = \<lparr>meta_MatchLabels = None, meta_MatchAnnotations = None\<rparr>,
      subject_NameSelector = \<lparr>name_MatchList = Some [''builder''],
                              name_MatchRegex = \<lparr>Negative = False, Expression = []\<rparr>\<rparr>,
      subject_NamespaceSelector = emptyNamespaceSelector\<rparr>"

definition exampleBinding :: DynamicRoleBinding where
  "exampleBinding =
     \<lparr>drb_APIVersion = ''kuberbac.prosimcorp.com/v1alpha1'', drb_Kind = ''DynamicRoleBinding'',
      drb_Name = ''example-role-binding'', drb_Namespace = [],
      drb_Source = \<lparr>source_ClusterRole = ''example-policy'', source_Subject = exampleSubject\<rparr>,
      drb_Targets = \<lparr>targets_Name = ''example-policy'', targets_Annotations = [],
                     targets_Labels = [], targets_ClusterScoped = False,
                     targets_NamespaceSelector =
                       \<lparr>ns_MatchLabels = None, ns_MatchList = Some [''ns3''],
                        ns_MatchRegex = \<lparr>Negative = False, Expression = []\<rparr>\<rparr>\<rparr>\<rparr>"

text \<open>The same source with a cluster-scoped target, and with an empty target
  namespace selector.\<close>

definition exampleClusterBinding :: DynamicRoleBinding where
  "exampleClusterBinding =
     exampleBinding\<lparr>drb_Targets := (drb_Targets exampleBinding)\<lparr>targets_ClusterScoped := True\<rparr>\<rparr>"

definition exampleEverywhereBinding :: DynamicRoleBinding where
  "exampleEverywhereBinding =
     exampleBinding\<lparr>drb_Targets :=
       (drb_Targets exampleBinding)\<lparr>targets_NamespaceSelector := emptyNamespaceSelector\<rparr>\<rparr>"

definition exampleSubjects :: "Subject list" where
  "exampleSubjects =
     [\<lparr>sub_Kind = ''ServiceAccount'', sub_APIGroup = [], sub_Name = ''builder'',
       sub_Namespace = ''ns1''\<rparr>]"

definition ownedRoleBinding :: "string \<Rightarrow> RoleBinding" where
  "ownedRoleBinding ns = bindingResource exampleBinding exampleSubjects ns"

definition foreignRoleBinding :: "string \<Rightarrow> string \<Rightarrow> RoleBinding" where
  "foreignRoleBinding name ns =
     \<lparr>rb_Name = name, rb_Namespace = ns, rb_Labels = [], rb_Annotations = [],
      rb_RoleRef = \<lparr>ref_APIGroup = ''rbac.authorization.k8s.io'', ref_Kind = ''ClusterRole'',
                    ref_Name = ''view''\<rparr>,
      rb_Subjects = []\<rparr>"

definition exampleRoleBindings :: "RoleBinding list" where
  "exampleRoleBindings =
     [ownedRoleBinding ''ns3'', ownedRoleBinding ''ns4'', foreignRoleBinding ''viewers'' ''ns4'']"

definition exampleClient :: Client where
  "exampleClient =
     \<lparr>listNamespaces = Inr exampleNamespaces,
      listServiceAccounts = Inr exampleServiceAccounts,
      listRoleBindings = Inr exampleRoleBindings,
      getClusterRoleBinding = (\<lambda>name.
         if name = ''example-policy'' then Inr (Some (foreignRoleBinding ''example-policy'' []))
         else Inr None),
      writeResult = (\<lambda>op. None)\<rparr>"

text \<open>
  A DynamicClusterRole that is being deleted and still has the finalizer, in a cluster
  with a cluster role that carries its reference annotations and one that does not.
\<close>

definition exampleDeletedRole :: DynamicClusterRole where
  "exampleDeletedRole =
     \<lparr>dcr_APIVersion = ''kuberbac.prosimcorp.com/v1alpha1'', dcr_Kind = ''DynamicClusterRole'',
      dcr_Name = ''example-role'', dcr_Namespace = [],
      dcr_DeletionTimestamp = Some ''2024-06-01T00:00:00Z'',
      dcr_Finalizers = [''kuberbac.prosimcorp.com/finalizer''],
      dcr_SynchronizationTime = ''10s'',
      dcr_Target = \<lparr>target_Name = ''example-policy'', target_Annotations = [],
                    target_Labels = [], target_SeparateScopes = False\<rparr>,
      dcr_Allow = [resourceRule [[]] [''pods''] [] [''get'']],
      dcr_Deny = [],
      dcr_Conditions = []\<rparr>"

definition exampleOwnedClusterRole :: ClusterRole where
  "exampleOwnedClusterRole =
     clusterRoleResource exampleDeletedRole ''example-policy''
       [resourceRule [[]] [''pods''] [] [''get'']]"

definition exampleForeignClusterRole :: ClusterRole where
  "exampleForeignClusterRole =
     \<lparr>cr_Name = ''view'', cr_Annotations = [], cr_Labels = [], cr_Rules = []\<rparr>"

definition exampleRoleClient :: RoleClient where
  "exampleRoleClient =
     \<lparr>getSource = (\<lambda>name. if name = ''example-role'' then Inr (Some exampleDeletedRole)
                             else Inr None),
      discovery = Inr [(''v1'', [\<lparr>api_Name = ''pods'', api_Kind = ''Pod'', api_Namespaced = True,
                                  api_Verbs = [''get'', ''list'']\<rparr>])],
      listObjects = exampleLister,
      listClusterRoles = Inr [exampleOwnedClusterRole, exampleForeignClusterRole],
      roleWriteResult = (\<lambda>op. None)\<rparr>"

definition exampleParseDuration :: "string \<Rightarrow> error + int" where
  "exampleParseDuration s =
     (if s = ''10s'' then Inr 10000000000 else Inl (ApiError ''time: invalid duration''))"

section \<open>Verb subtraction\<close>


lemma allow_fold_distinct:
  "distinct (map fst m0) \<Longrightarrow> distinct (map fst (foldl (\<lambda>m v. AList.update v (1::int) m) m0 xs))"
  by (induction xs arbitrary: m0) (auto simp: distinct_update)

lemma markDenied_distinct:
  "distinct (map fst m) \<Longrightarrow> distinct (map fst (markDenied m v))"
  by (auto simp: markDenied_def distinct_update split: option.splits)

lemma deny_fold_distinct:
  "distinct (map fst m) \<Longrightarrow> distinct (map fst (foldl markDenied m ds))"
  by (induction ds arbitrary: m) (auto simp: markDenied_distinct)




lemma GetSurvivingVerbs_distinct: "distinct (GetSurvivingVerbs a d)"
proof -
  have "distinct (map fst (foldl markDenied (foldl (\<lambda>m v. AList.update v (1::int) m) [] a) d))"
    by (simp add: deny_fold_distinct allow_fold_distinct)
  then show ?thesis
    by (simp add: GetSurvivingVerbs_def Let_def distinct_map_filter)
qed




lemma ruleAt_Some: "map_of m k = Some r \<Longrightarrow> ruleAt m k = r"
  by (simp add: ruleAt_def)

lemma ruleAt_None: "map_of m k = None \<Longrightarrow> ruleAt m k = zeroPolicyRule"
  by (simp add: ruleAt_def)



lemma expandRule_Verbs: "expandRule p r = Some r' \<Longrightarrow> Verbs r' \<noteq> []"
  by (auto simp: expandRule_def Let_def canonicalVerbs_def split: if_splits)

lemma set_map_filter: "set (List.map_filter f xs) = {y. \<exists>x \<in> set xs. f x = Some y}"
  by (induction xs) (auto split: option.splits)

lemma ExpandPolicyRules_Verbs: "r' \<in> set (ExpandPolicyRules p rs) \<Longrightarrow> Verbs r' \<noteq> []"
  by (auto simp: ExpandPolicyRules_def set_map_filter expandRule_Verbs)

lemma stretchRule_Verbs: "a \<in> set (stretchRule p r) \<Longrightarrow> Verbs a = Verbs r"
  by (auto simp: stretchRule_def stretchPair_def split: if_splits)

lemma StretchPolicyRules_Verbs:
  "(\<And>r. r \<in> set rs \<Longrightarrow> Verbs r \<noteq> []) \<Longrightarrow> a \<in> set (StretchPolicyRules p rs) \<Longrightarrow> Verbs a \<noteq> []"
  by (auto simp: StretchPolicyRules_def dest: stretchRule_Verbs)

lemma instanceRule_sel [simp]:
  "Verbs (instanceRule b n) = Verbs b"
  "APIGroups (instanceRule b n) = APIGroups b"
  "Resources (instanceRule b n) = Resources b"
  "ResourceNames (instanceRule b n) = [n]"
  "NonResourceURLs (instanceRule b n) = []"
  by (simp_all add: instanceRule_def)

lemma addInstance_key:
  "map_of m key = Some r \<Longrightarrow>
   \<exists>r'. map_of (addInstance key m name) key = Some r' \<and> Verbs r' = Verbs r
         \<and> APIGroups r' = APIGroups r \<and> Resources r' = Resources r"
  by (auto simp: addInstance_def update_conv' ruleAt_def)


subsection \<open>The evaluation at one key\<close>










lemma survivingAfter_Nil [simp]: "survivingAfter [] K v = v"
  by (simp add: survivingAfter_def)

lemma survivingAfter_Cons [simp]:
  "survivingAfter (e # es) K v =
     survivingAfter es K (if subtractsAt e K then GetSurvivingVerbs v (Verbs (snd e)) else v)"
  by (simp add: survivingAfter_def)








section \<open>Stage A: the groups of an expanded rule\<close>


lemma strings_Split_no_sep: "c \<notin> set s \<Longrightarrow> strings_Split s c = [s]"
  by (induction s) (auto split: list.splits)


lemma markGroup_owns:
  assumes "\<forall>g \<in> set acc. ownsType p resources g" and "resource \<in> set resources"
  shows "\<forall>g \<in> set (markGroup p resource acc grp). ownsType p resources g"
  using assms
  by (auto simp: markGroup_def ownsType_def list_ex_iff)

lemma markGroups_owns:
  assumes "\<forall>g \<in> set acc. ownsType p resources g" and "resource \<in> set resources"
  shows "\<forall>g \<in> set (foldl (markGroup p resource) acc groups). ownsType p resources g"
  using assms
proof (induction groups arbitrary: acc)
  case Nil
  then show ?case by simp
next
  case (Cons grp groups)
  have "\<forall>g \<in> set (markGroup p resource acc grp). ownsType p resources g"
    using Cons.prems by (rule markGroup_owns)
  then show ?case using Cons.IH Cons.prems(2) by simp
qed

lemma cleanup_owns_aux:
  assumes "\<forall>g \<in> set acc. ownsType p resources g" and "set rs \<subseteq> set resources"
  shows "\<forall>g \<in> set (foldl (\<lambda>newGroupList resource.
            foldl (markGroup p resource) newGroupList groups) acc rs). ownsType p resources g"
  using assms
proof (induction rs arbitrary: acc)
  case Nil
  then show ?case by simp
next
  case (Cons resource rs)
  have "\<forall>g \<in> set (foldl (markGroup p resource) acc groups). ownsType p resources g"
    using Cons.prems by (intro markGroups_owns) auto
  then show ?case using Cons.IH Cons.prems(2) by simp
qed

lemma cleanupGroups_owns:
  "g \<in> set (cleanupGroups p resources groups) \<Longrightarrow> ownsType p resources g"
  using cleanup_owns_aux [of "[]" p resources resources groups]
  by (simp add: cleanupGroups_def)

lemma expandRule_owns:
  "expandRule p r = Some r' \<Longrightarrow> g \<in> set (APIGroups r') \<Longrightarrow> ownsType p (Resources r') g"
  by (auto simp: expandRule_def Let_def cleanupGroups_owns split: if_splits)

lemma ExpandPolicyRules_owns:
  "r' \<in> set (ExpandPolicyRules p rules) \<Longrightarrow> g \<in> set (APIGroups r') \<Longrightarrow>
     ownsType p (Resources r') g"
  by (auto simp: ExpandPolicyRules_def set_map_filter expandRule_owns)

lemma markGroup_only:
  assumes "\<And>g. g \<noteq> core \<Longrightarrow> \<not> list_ex (\<lambda>gvkr. Resource gvkr = resourceType resource) (resourcesOf p g)"
    and "list_ex (\<lambda>gvkr. Resource gvkr = resourceType resource) (resourcesOf p core)"
  shows "foldl (markGroup p resource) acc groups =
           (if core \<in> set groups \<and> core \<notin> set acc then acc @ [core] else acc)"
proof (induction groups arbitrary: acc)
  case Nil
  then show ?case by simp
next
  case (Cons g groups)
  show ?case
  proof (cases "g = core")
    case True
    then show ?thesis using assms(2) Cons.IH
      by (simp add: markGroup_def slices_Contains_def)
  next
    case False
    then have "markGroup p resource acc g = acc"
      using assms(1) by (simp add: markGroup_def)
    then show ?thesis using False Cons.IH by simp
  qed
qed

lemma resourceType_plain: "CHR ''/'' \<notin> set s \<Longrightarrow> resourceType s = s"
  by (simp add: resourceType_def strings_Split_no_sep)

lemma gvkrName_in_SetResourceList:
  "map_of rbg grp = Some l \<Longrightarrow> gv \<in> set l \<Longrightarrow> gvkrName gv \<in> set (SetResourceList rbg)"
  by (force simp: SetResourceList_def dest: map_of_SomeD)

lemma wildcard_closure:
  assumes core: "map_of rbg [] = Some coreList"
    and gv: "gv \<in> set coreList" "Resource gv = ''pods''" "Subresource gv = []"
    and others: "\<And>g l gv'. g \<noteq> [] \<Longrightarrow> map_of rbg g = Some l \<Longrightarrow> gv' \<in> set l \<Longrightarrow> Resource gv' \<noteq> ''pods''"
    and rule: "APIGroups rule = [''*'']" "Resources rule = [''pods'']" "NonResourceURLs rule = []"
      "Verbs rule \<noteq> []"
  shows "map APIGroups (ExpandPolicyRules (NewPolicyRuleProcessor rbg cl) [rule]) = [[[]]]"
proof -
  let ?p = "NewPolicyRuleProcessor rbg cl"
  have rt: "resourceType ''pods'' = ''pods''" by (simp add: resourceType_plain)
  have groups: "expandGroups ?p rule = map fst rbg"
    using rule by (simp add: expandGroups_def slices_Contains_def NewPolicyRuleProcessor_def)
  have "gvkrName gv = ''pods''" using gv by (simp add: gvkrName_def)
  then have "''pods'' \<in> set (SetResourceList rbg)"
    using gvkrName_in_SetResourceList [OF core gv(1)] by simp
  then have resources: "expandResources ?p (map fst rbg) rule = [''pods'']"
    using rule by (simp add: expandResources_def slices_Contains_def NewPolicyRuleProcessor_def)
  have inCore: "list_ex (\<lambda>gvkr. Resource gvkr = resourceType ''pods'') (resourcesOf ?p [])"
    using core gv by (auto simp: rt resourcesOf_def NewPolicyRuleProcessor_def list_ex_iff)
  have notOther: "\<not> list_ex (\<lambda>gvkr. Resource gvkr = resourceType ''pods'') (resourcesOf ?p g)"
    if "g \<noteq> []" for g
  proof (cases "map_of rbg g")
    case None
    then show ?thesis by (simp add: resourcesOf_def NewPolicyRuleProcessor_def)
  next
    case (Some l)
    then show ?thesis
      using others [OF that Some]
      by (auto simp: rt resourcesOf_def NewPolicyRuleProcessor_def list_ex_iff)
  qed
  have "[] \<in> set (map fst rbg)"
    using core by (metis map_of_eq_None_iff option.distinct(1) set_map)
  then have "cleanupGroups ?p [''pods''] (map fst rbg) = [[]]"
    using markGroup_only [of "[]" "''pods''" ?p "[]" "map fst rbg", OF notOther inCore]
    by (simp add: cleanupGroups_def)
  then show ?thesis
    using rule groups resources
    by (simp add: ExpandPolicyRules_def expandRule_def Let_def)
qed

text \<open>
  Claim C3. Every group of a rule returned by \<open>ExpandPolicyRules\<close> has an inventory
  entry whose resource, without subresource, is the resource type of one of the
  resources of that rule. In particular, when \<open>pods\<close> is a resource of the core group
  (the empty group name) and of no other group of the inventory, the rule with
  \<open>apiGroups = ["*"]\<close> and \<open>resources = ["pods"]\<close> expands to one rule whose groups are
  exactly the core group.
\<close>

theorem expand_retightens_groups:
  "(\<forall>r' \<in> set (ExpandPolicyRules p rules). \<forall>g \<in> set (APIGroups r'). ownsType p (Resources r') g)
   \<and> (map_of rbg [] = Some coreList \<longrightarrow> gv \<in> set coreList \<longrightarrow> Resource gv = ''pods''
        \<longrightarrow> Subresource gv = []
        \<longrightarrow> (\<forall>g l gv'. g \<noteq> [] \<longrightarrow> map_of rbg g = Some l \<longrightarrow> gv' \<in> set l
               \<longrightarrow> Resource gv' \<noteq> ''pods'')
        \<longrightarrow> APIGroups rule = [''*''] \<longrightarrow> Resources rule = [''pods'']
        \<longrightarrow> NonResourceURLs rule = [] \<longrightarrow> Verbs rule \<noteq> []
        \<longrightarrow> map APIGroups (ExpandPolicyRules (NewPolicyRuleProcessor rbg cl) [rule]) = [[[]]])"
proof (intro conjI ballI impI)
  fix r' g
  assume "r' \<in> set (ExpandPolicyRules p rules)" and "g \<in> set (APIGroups r')"
  then show "ownsType p (Resources r') g" by (rule ExpandPolicyRules_owns)
next
  assume "map_of rbg [] = Some coreList" and "gv \<in> set coreList" and "Resource gv = ''pods''"
    and "Subresource gv = []"
    and "\<forall>g l gv'. g \<noteq> [] \<longrightarrow> map_of rbg g = Some l \<longrightarrow> gv' \<in> set l \<longrightarrow> Resource gv' \<noteq> ''pods''"
    and "APIGroups rule = [''*'']" and "Resources rule = [''pods'']"
    and "NonResourceURLs rule = []" and "Verbs rule \<noteq> []"
  then show "map APIGroups (ExpandPolicyRules (NewPolicyRuleProcessor rbg cl) [rule]) = [[[]]]"
    by (intro wildcard_closure [where coreList = coreList and gv = gv]) blast+
qed

theorem expand_retightens_groups_witness:
  "ExpandPolicyRules exampleProcessor [resourceRule [''*''] [''pods''] [] [''get'']]
     = [resourceRule [[]] [''pods''] [] [''get'']]
   \<and> ownsType exampleProcessor [''pods''] []
   \<and> map APIGroups (ExpandPolicyRules (NewPolicyRuleProcessor exampleInventory exampleLister)
        [resourceRule [''*''] [''pods''] [] [''get'']]) = [[[]]]"
proof -
  let ?rule = "resourceRule [''*''] [''pods''] [] [''get'']"
  let ?core = "[exampleGVKR [] ''Pod'' ''pods'' [] True,
                exampleGVKR [] ''Pod'' ''pods'' ''log'' True,
                exampleGVKR [] ''ConfigMap'' ''configmaps'' [] True,
                exampleGVKR [] ''Node'' ''nodes'' [] False]"
  let ?gv = "exampleGVKR [] ''Pod'' ''pods'' [] True"
  have e: "ExpandPolicyRules exampleProcessor [?rule] = [resourceRule [[]] [''pods''] [] [''get'']]"
    by code_simp
  have m: "resourceRule [[]] [''pods''] [] [''get''] \<in> set (ExpandPolicyRules exampleProcessor [?rule])"
    by (simp add: e)
  have g: "[] \<in> set (APIGroups (resourceRule [[]] [''pods''] [] [''get'']))"
    by (simp add: resourceRule_def)
  have r: "Resources (resourceRule [[]] [''pods''] [] [''get'']) = [''pods'']"
    by (simp add: resourceRule_def)
  have c: "map_of exampleInventory [] = Some ?core" by (simp add: exampleInventory_def)
  have i: "?gv \<in> set ?core" by simp
  have s: "Resource ?gv = ''pods''" "Subresource ?gv = []" by (simp_all add: exampleGVKR_def)
  have o: "\<forall>g l gv'. g \<noteq> [] \<longrightarrow> map_of exampleInventory g = Some l \<longrightarrow> gv' \<in> set l
             \<longrightarrow> Resource gv' \<noteq> ''pods''"
    by (auto simp: exampleInventory_def exampleGVKR_def split: if_splits)
  have f: "APIGroups ?rule = [''*'']" "Resources ?rule = [''pods'']" "NonResourceURLs ?rule = []"
    "Verbs ?rule \<noteq> []" by (simp_all add: resourceRule_def)
  have t: "(\<forall>r' \<in> set (ExpandPolicyRules exampleProcessor [?rule]).
               \<forall>g \<in> set (APIGroups r'). ownsType exampleProcessor (Resources r') g)
           \<and> map APIGroups (ExpandPolicyRules (NewPolicyRuleProcessor exampleInventory exampleLister)
                [?rule]) = [[[]]]"
    using expand_retightens_groups [of exampleProcessor "[?rule]" exampleInventory ?core ?gv ?rule exampleLister]
      c i s o f by blast
  then have "ownsType exampleProcessor [''pods''] []" using m g r by (metis)
  then show ?thesis using e t by blast
qed

section \<open>Compilation without deny rules\<close>

text \<open>
  Claim C4. The allow list of the example has no wildcard, its group and resources are
  in the inventory, and there is no deny: \<open>watch\<close> on nodes and pods, and \<open>get\<close> on pods.
  Its key-merged form is \<open>watch\<close> on nodes, \<open>get\<close> and \<open>watch\<close> on pods, and this is the
  compiled map when no \<open>Verbs\<close> slice of the list has room left. When the slice of the
  first rule has room for a second verb, the compiled map has \<open>get\<close> on nodes and no
  \<open>watch\<close>: the rules of nodes and of pods made from the first rule share one array,
  \<open>append\<close> writes \<open>get\<close> behind \<open>watch\<close> in it when the second rule meets the key of
  pods, and \<open>slices.Sort\<close> moves it to the front, where the rule of nodes reads it.
\<close>

theorem shared_verbs_break_additivity:
  "keyAndMerge (StretchPolicyRules exampleProcessor
                  (ExpandPolicyRules exampleProcessor exampleAllowList))
     = [(''#nodes#'', resourceRule [[]] [''nodes''] [] [''watch'']),
        (''#pods#'', resourceRule [[]] [''pods''] [] [''get'', ''watch''])]
   \<and> compileRules exactMemory exampleProcessor exampleAllowList []
     = Inr [(''#nodes#'', resourceRule [[]] [''nodes''] [] [''watch'']),
            (''#pods#'', resourceRule [[]] [''pods''] [] [''get'', ''watch''])]
   \<and> compileRules exampleMemory exampleProcessor exampleAllowList []
     = Inr [(''#nodes#'', resourceRule [[]] [''nodes''] [] [''get'']),
            (''#pods#'', resourceRule [[]] [''pods''] [] [''get'', ''watch''])]"
  by code_simp

section \<open>Name-scoped denies\<close>

subsection \<open>Keys\<close>










lemma HasPrefix_append: "strings_HasPrefix (pre @ x) pre"
  by (simp add: strings_HasPrefix_def)

lemma HasPrefix_iff: "strings_HasPrefix k pre = (\<exists>x. k = pre @ x)"
  unfolding strings_HasPrefix_def
  by (metis append_eq_conv_conj append_take_drop_id)


lemma HasPrefix_trans:
  "strings_HasPrefix k q \<Longrightarrow> strings_HasPrefix q pre \<Longrightarrow> strings_HasPrefix k pre"
  by (auto simp: HasPrefix_iff)


lemma resourceKey_inj: "resourceKey g r n = resourceKey g r n' \<Longrightarrow> n = n'"
  by (simp add: resourceKey_def)




lemma prefix_TrimSuffix:
  assumes "strings_HasPrefix k P" and "strings_HasSuffix k [c]" and "c \<notin> set P"
  shows "strings_HasPrefix (strings_TrimSuffix k [c]) P"
proof -
  from assms(1) obtain x where k: "k = P @ x" by (auto simp: HasPrefix_iff)
  have d: "1 \<le> length k" "drop (length k - 1) k = [c]"
    using assms(2) by (auto simp: strings_HasSuffix_def)
  then have "last (drop (length k - 1) k) = last k" by (intro last_drop) simp
  then have "last [c] = last k" by (simp only: d(2))
  then have l: "k \<noteq> []" "last k = c" using d(1) by auto
  have "x \<noteq> []"
  proof
    assume "x = []"
    then have "last P = c" "P \<noteq> []" using k l by auto
    then show False using assms(3) by (metis last_in_set)
  qed
  have "strings_TrimSuffix k [c] = butlast k"
    using assms(2) by (simp add: strings_TrimSuffix_def butlast_conv_take)
  also have "\<dots> = P @ butlast x" using k \<open>x \<noteq> []\<close> by (simp add: butlast_append)
  finally show ?thesis by (simp add: HasPrefix_iff)
qed

lemma url_prefix_TrimSuffix:
  assumes "strings_HasPrefix k ''nonresourceurl''" and "strings_HasSuffix k ''*''"
  shows "strings_HasPrefix (strings_TrimSuffix k ''*'') ''nonresourceurl''"
  using assms by (intro prefix_TrimSuffix) simp_all


subsection \<open>The name expansion of EvaluateSpecialCases\<close>



lemma sameCore_trans: "sameCore a b \<Longrightarrow> sameCore b c \<Longrightarrow> sameCore a c"
  by (simp add: sameCore_def)






















section \<open>The scope splitter on rules of non-resource URLs\<close>

lemma SplitPolicyRules_url:
  "APIGroups r = [] \<Longrightarrow> SplitPolicyRules p (r # rs) = Inl IndexOutOfRange"
  by (simp add: SplitPolicyRules_def splitRule_def index_def)

text \<open>
  Claim C6. The compiler keeps a rule of a non-resource URL as a rule without groups
  and resources; on such a rule \<open>SplitPolicyRules\<close> evaluates
  \<open>policyRule.APIGroups[0]\<close> on an empty slice and panics, so the rule reaches
  neither partition.
\<close>

theorem split_panics_on_url_rule:
  "compileRules exampleMemory exampleProcessor [urlRule [''/healthz''] [''get'']] []
     = Inr [(''nonresourceurl#/healthz'', urlRule [''/healthz''] [''get''])]
   \<and> SplitPolicyRules exampleProcessor [urlRule [''/healthz''] [''get'']] = Inl IndexOutOfRange"
  by code_simp

section \<open>The writes of the binding synthesizer\<close>

lemma upsert_writes:
  "fst (foldl (upsertRoleBinding cl resource subjects existing) st targets)
     = fst st @ map (\<lambda>ns. UpdateRoleBinding (bindingResource resource subjects ns))
                  (filter (\<lambda>ns. \<not> roleBindingFound (bindingResource resource subjects ns) existing ns)
                     targets)"
  by (induction targets arbitrary: st) (auto simp: upsertRoleBinding_def Let_def)

lemma reap_writes:
  "fst (foldl (reapRoleBinding cl resource compl) st existing)
     = fst st @ map DeleteRoleBinding
                  (filter (\<lambda>rb. ownedBy resource rb \<and> rb_Namespace rb \<in> set compl) existing)"
  by (induction existing arbitrary: st)
    (auto simp: reapRoleBinding_def Let_def ownedBy_def slices_Contains_def)

lemma syncNamespaced_writes:
  assumes "listRoleBindings cl = Inr existing"
    and "FilterNamespaceListBySelector re namespaceList
           (targets_NamespaceSelector (drb_Targets resource)) = Inr targets"
  shows "fst (syncNamespaced re cl resource namespaceList subjects)
     = map (\<lambda>ns. UpdateRoleBinding (bindingResource resource subjects ns))
         (filter (\<lambda>ns. \<not> roleBindingFound (bindingResource resource subjects ns) existing ns) targets)
       @ map DeleteRoleBinding
           (filter (\<lambda>rb. ownedBy resource rb
                      \<and> rb_Namespace rb \<in> namespace_Name ` set namespaceList - set targets)
              existing)"
proof -
  have "set (map namespace_Name
          (filter (\<lambda>ns. \<not> slices_Contains targets (namespace_Name ns)) namespaceList))
        = namespace_Name ` set namespaceList - set targets"
    by (auto simp: slices_Contains_def)
  then show ?thesis
    using assms
    by (simp add: syncNamespaced_def Let_def reap_writes upsert_writes del: set_map set_filter)
qed

text \<open>
  Claim C7. Let the target not be cluster-scoped and \<open>SyncTarget\<close> reach the
  role-bindings: the subject is valid and expanded, and the role-bindings and the
  target namespaces are listed. Let every listed role-binding be in a listed namespace.
  Then \<open>SyncTarget\<close> calls \<open>Delete\<close> on a listed role-binding exactly when its
  annotations contain the reference annotations of the source and its namespace is not
  a target namespace: every owned role-binding outside the target set is deleted, and
  none inside it.
\<close>

theorem orphans_are_reaped:
  assumes "\<not> targets_ClusterScoped (drb_Targets resource)"
    and "expandSubjects re cl resource = Inr (namespaceList, subjects)"
    and "listRoleBindings cl = Inr existing"
    and "FilterNamespaceListBySelector re namespaceList
           (targets_NamespaceSelector (drb_Targets resource)) = Inr targets"
    and "\<forall>roleBinding \<in> set existing.
           rb_Namespace roleBinding \<in> namespace_Name ` set namespaceList"
  shows "\<forall>roleBinding \<in> set existing.
           (DeleteRoleBinding roleBinding \<in> set (fst (SyncTarget re cl resource)))
             = (ownedBy resource roleBinding \<and> rb_Namespace roleBinding \<notin> set targets)"
proof
  fix roleBinding
  assume rb: "roleBinding \<in> set existing"
  have w: "fst (SyncTarget re cl resource) = fst (syncNamespaced re cl resource namespaceList subjects)"
    using assms(1,2) by (simp add: SyncTarget_def)
  have "(DeleteRoleBinding roleBinding \<in> set (fst (syncNamespaced re cl resource namespaceList subjects)))
      = (roleBinding \<in> set existing \<and> ownedBy resource roleBinding
         \<and> rb_Namespace roleBinding \<in> namespace_Name ` set namespaceList - set targets)"
    unfolding syncNamespaced_writes [OF assms(3,4)] by auto
  then show "(DeleteRoleBinding roleBinding \<in> set (fst (SyncTarget re cl resource)))
             = (ownedBy resource roleBinding \<and> rb_Namespace roleBinding \<notin> set targets)"
    using rb assms(5) w by auto
qed

theorem orphans_are_reaped_witness:
  "DeleteRoleBinding (ownedRoleBinding ''ns4'')
     \<in> set (fst (SyncTarget exampleRegexp exampleClient exampleBinding))
   \<and> DeleteRoleBinding (ownedRoleBinding ''ns3'')
     \<notin> set (fst (SyncTarget exampleRegexp exampleClient exampleBinding))
   \<and> DeleteRoleBinding (foreignRoleBinding ''viewers'' ''ns4'')
     \<notin> set (fst (SyncTarget exampleRegexp exampleClient exampleBinding))"
proof -
  have h1: "\<not> targets_ClusterScoped (drb_Targets exampleBinding)"
    by (simp add: exampleBinding_def)
  have h2: "expandSubjects exampleRegexp exampleClient exampleBinding
              = Inr (exampleNamespaces, exampleSubjects)"
    by code_simp
  have h3: "listRoleBindings exampleClient = Inr exampleRoleBindings"
    by (simp add: exampleClient_def)
  have h4: "FilterNamespaceListBySelector exampleRegexp exampleNamespaces
              (targets_NamespaceSelector (drb_Targets exampleBinding)) = Inr [''ns3'']"
    by code_simp
  have h5: "\<forall>roleBinding \<in> set exampleRoleBindings.
              rb_Namespace roleBinding \<in> namespace_Name ` set exampleNamespaces"
    by (simp add: exampleRoleBindings_def exampleNamespaces_def ownedRoleBinding_def
          foreignRoleBinding_def bindingResource_def)
  have o: "ownedBy exampleBinding (ownedRoleBinding ''ns4'')"
    "ownedBy exampleBinding (ownedRoleBinding ''ns3'')"
    "\<not> ownedBy exampleBinding (foreignRoleBinding ''viewers'' ''ns4'')"
    by code_simp+
  have n: "rb_Namespace (ownedRoleBinding ''ns4'') = ''ns4''"
    "rb_Namespace (ownedRoleBinding ''ns3'') = ''ns3''"
    by (simp_all add: ownedRoleBinding_def bindingResource_def)
  have m: "ownedRoleBinding ''ns4'' \<in> set exampleRoleBindings"
    "ownedRoleBinding ''ns3'' \<in> set exampleRoleBindings"
    "foreignRoleBinding ''viewers'' ''ns4'' \<in> set exampleRoleBindings"
    by (simp_all add: exampleRoleBindings_def)
  show ?thesis
    using orphans_are_reaped [OF h1 h2 h3 h4 h5] o n m by auto
qed

text \<open>
  Claim C8. Let the target be cluster-scoped and a cluster-role-binding of the target
  name exist whose annotations do not contain the reference annotations of the source.
  Then \<open>SyncTarget\<close> makes no call that changes the cluster, and when the subject is
  valid and expanded it returns no error.
\<close>

theorem foreign_cluster_role_binding_kept:
  assumes "targets_ClusterScoped (drb_Targets resource)"
    and "getClusterRoleBinding cl (targets_Name (drb_Targets resource)) = Inr (Some found)"
    and "\<not> IsSubset (referenceAnnotations resource) (rb_Annotations found)"
  shows "fst (SyncTarget re cl resource) = []
    \<and> (\<forall>namespaceList subjects. expandSubjects re cl resource = Inr (namespaceList, subjects)
          \<longrightarrow> SyncTarget re cl resource = ([], None))"
  using assms
  by (auto simp: SyncTarget_def syncClusterScoped_def split: sum.splits)

theorem foreign_cluster_role_binding_kept_witness:
  "SyncTarget exampleRegexp exampleClient exampleClusterBinding = ([], None)"
proof -
  have h1: "targets_ClusterScoped (drb_Targets exampleClusterBinding)"
    by (simp add: exampleClusterBinding_def)
  have h2: "getClusterRoleBinding exampleClient (targets_Name (drb_Targets exampleClusterBinding))
              = Inr (Some (foreignRoleBinding ''example-policy'' []))"
    by (simp add: exampleClient_def exampleClusterBinding_def exampleBinding_def)
  have h3: "\<not> IsSubset (referenceAnnotations exampleClusterBinding)
                 (rb_Annotations (foreignRoleBinding ''example-policy'' []))"
    by code_simp
  have e: "expandSubjects exampleRegexp exampleClient exampleClusterBinding
             = Inr (exampleNamespaces, exampleSubjects)"
    by code_simp
  show ?thesis
    using foreign_cluster_role_binding_kept [OF h1 h2 h3, of exampleRegexp] e by blast
qed

text \<open>
  Claim C9 does not hold: with an empty target namespace selector the target
  namespaces are all namespaces of the cluster and a role-binding is written in each of
  the three namespaces of the example.
\<close>

theorem empty_target_selector_counterexample:
  "\<not> targets_ClusterScoped (drb_Targets exampleEverywhereBinding)
   \<and> IsZero_NamespaceSelector (targets_NamespaceSelector (drb_Targets exampleEverywhereBinding))
   \<and> FilterNamespaceListBySelector exampleRegexp exampleNamespaces
        (targets_NamespaceSelector (drb_Targets exampleEverywhereBinding))
       = Inr [''ns1'', ''ns3'', ''ns4'']
   \<and> SyncTarget exampleRegexp exampleClient exampleEverywhereBinding
       = ([UpdateRoleBinding (bindingResource exampleEverywhereBinding exampleSubjects ''ns1''),
           UpdateRoleBinding (bindingResource exampleEverywhereBinding exampleSubjects ''ns3''),
           UpdateRoleBinding (bindingResource exampleEverywhereBinding exampleSubjects ''ns4'')],
          None)"
  by code_simp

text \<open>
  Claim C9, amended. \<open>FilterNamespaceListBySelector\<close> returns the names of all listed
  namespaces for a selector that is the zero value. When the target is not
  cluster-scoped and its namespace selector is the zero value, \<open>SyncTarget\<close>, once the
  subject is expanded and the role-bindings are listed, writes the role-binding in
  every namespace of the cluster in which no listed role-binding of the target name
  lacks the annotations to write.
\<close>

theorem empty_target_selector_selects_all:
  "(IsZero_NamespaceSelector namespaceSelector \<longrightarrow>
      FilterNamespaceListBySelector re namespaceList namespaceSelector
        = Inr (map namespace_Name namespaceList))
   \<and> (\<not> targets_ClusterScoped (drb_Targets resource) \<longrightarrow>
      IsZero_NamespaceSelector (targets_NamespaceSelector (drb_Targets resource)) \<longrightarrow>
      expandSubjects re cl resource = Inr (namespaceList, subjects) \<longrightarrow>
      listRoleBindings cl = Inr existing \<longrightarrow>
      (\<forall>ns \<in> namespace_Name ` set namespaceList.
         (UpdateRoleBinding (bindingResource resource subjects ns)
            \<in> set (fst (SyncTarget re cl resource)))
         = (\<not> roleBindingFound (bindingResource resource subjects ns) existing ns)))"
proof (intro conjI impI ballI)
  assume "IsZero_NamespaceSelector namespaceSelector"
  then show "FilterNamespaceListBySelector re namespaceList namespaceSelector
        = Inr (map namespace_Name namespaceList)"
    by (simp add: FilterNamespaceListBySelector_def)
next
  fix ns
  assume a: "\<not> targets_ClusterScoped (drb_Targets resource)"
    and z: "IsZero_NamespaceSelector (targets_NamespaceSelector (drb_Targets resource))"
    and e: "expandSubjects re cl resource = Inr (namespaceList, subjects)"
    and l: "listRoleBindings cl = Inr existing"
    and ns: "ns \<in> namespace_Name ` set namespaceList"
  have f: "FilterNamespaceListBySelector re namespaceList
           (targets_NamespaceSelector (drb_Targets resource)) = Inr (map namespace_Name namespaceList)"
    using z by (simp add: FilterNamespaceListBySelector_def)
  have w: "fst (SyncTarget re cl resource) = fst (syncNamespaced re cl resource namespaceList subjects)"
    using a e by (simp add: SyncTarget_def)
  have inj: "bindingResource resource subjects x = bindingResource resource subjects ns \<Longrightarrow> x = ns" for x
    by (auto simp: bindingResource_def)
  show "(UpdateRoleBinding (bindingResource resource subjects ns) \<in> set (fst (SyncTarget re cl resource)))
         = (\<not> roleBindingFound (bindingResource resource subjects ns) existing ns)"
    unfolding w syncNamespaced_writes [OF l f]
    using ns inj by auto
qed

theorem empty_target_selector_selects_all_witness:
  "FilterNamespaceListBySelector exampleRegexp exampleNamespaces emptyNamespaceSelector
     = Inr [''ns1'', ''ns3'', ''ns4'']
   \<and> UpdateRoleBinding (bindingResource exampleEverywhereBinding exampleSubjects ''ns4'')
       \<in> set (fst (SyncTarget exampleRegexp exampleClient exampleEverywhereBinding))"
proof -
  have z: "IsZero_NamespaceSelector emptyNamespaceSelector"
    by (simp add: emptyNamespaceSelector_def IsZero_NamespaceSelector_def IsZero_MatchRegex_def)
  have t: "targets_NamespaceSelector (drb_Targets exampleEverywhereBinding) = emptyNamespaceSelector"
    by (simp add: exampleEverywhereBinding_def)
  have h1: "\<not> targets_ClusterScoped (drb_Targets exampleEverywhereBinding)"
    by (simp add: exampleEverywhereBinding_def exampleBinding_def)
  have h2: "expandSubjects exampleRegexp exampleClient exampleEverywhereBinding
              = Inr (exampleNamespaces, exampleSubjects)"
    by code_simp
  have h3: "listRoleBindings exampleClient = Inr exampleRoleBindings"
    by (simp add: exampleClient_def)
  have n: "''ns4'' \<in> namespace_Name ` set exampleNamespaces"
    "map namespace_Name exampleNamespaces = [''ns1'', ''ns3'', ''ns4'']"
    by (simp_all add: exampleNamespaces_def)
  have f: "\<not> roleBindingFound (bindingResource exampleEverywhereBinding exampleSubjects ''ns4'')
              exampleRoleBindings ''ns4''"
    by code_simp
  show ?thesis
    using empty_target_selector_selects_all
      [of emptyNamespaceSelector exampleRegexp exampleNamespaces exampleEverywhereBinding
          exampleClient exampleSubjects exampleRoleBindings]
      z t h1 h2 h3 n f by auto
qed

section \<open>The namespace restriction on service accounts\<close>

lemma foldE_cong:
  "(\<And>s x. x \<in> set xs \<Longrightarrow> f s x = g s x) \<Longrightarrow> foldE f s xs = foldE g s xs"
  by (induction xs arbitrary: s) (auto split: sum.splits)

lemma passesNamespaceFilter_empty: "passesNamespaceFilter [] sa"
  by (simp add: passesNamespaceFilter_def)

lemma passesNamespaceFilter_all:
  "sa \<in> set sas \<Longrightarrow> passesNamespaceFilter (map sa_Namespace sas) sa"
  by (simp add: passesNamespaceFilter_def slices_Contains_def)

lemma selectServiceAccount_all:
  "sa \<in> set sas \<Longrightarrow>
   selectServiceAccount re mr [] subject items sa
     = selectServiceAccount re mr (map sa_Namespace sas) subject items sa"
  by (simp add: selectServiceAccount_def passesNamespaceFilter_empty passesNamespaceFilter_all)

text \<open>
  Claim C10. With an empty list of namespaces every service account passes the
  namespace check of \<open>GetServiceAccountsBySelectors\<close>, and the function returns what
  it returns for the list of the namespaces of all listed service accounts: the
  restriction is skipped, not applied with an empty set.
\<close>

theorem empty_namespace_list_selects_all:
  "(\<forall>serviceAccount. passesNamespaceFilter [] serviceAccount)
   \<and> (\<forall>serviceAccounts. listServiceAccounts cl = Inr serviceAccounts \<longrightarrow>
         GetServiceAccountsBySelectors re cl [] subject
           = GetServiceAccountsBySelectors re cl (map sa_Namespace serviceAccounts) subject)"
proof (intro conjI allI impI)
  fix serviceAccount
  show "passesNamespaceFilter [] serviceAccount" by (rule passesNamespaceFilter_empty)
next
  fix serviceAccounts
  assume l: "listServiceAccounts cl = Inr serviceAccounts"
  have eq: "foldE (selectServiceAccount re mr [] subject) [] serviceAccounts
        = foldE (selectServiceAccount re mr (map sa_Namespace serviceAccounts) subject) [] serviceAccounts"
    for mr
    by (rule foldE_cong) (rule selectServiceAccount_all)
  show "GetServiceAccountsBySelectors re cl [] subject
           = GetServiceAccountsBySelectors re cl (map sa_Namespace serviceAccounts) subject"
    by (simp add: GetServiceAccountsBySelectors_def l eq
          cong: sum.case_cong option.case_cong if_cong)
qed

theorem empty_namespace_list_selects_all_witness:
  "FilterNamespaceListBySelector exampleRegexp exampleNamespaces
       \<lparr>ns_MatchLabels = None, ns_MatchList = Some [''nowhere''],
        ns_MatchRegex = \<lparr>Negative = False, Expression = []\<rparr>\<rparr> = Inr []
   \<and> passesNamespaceFilter [] (hd exampleServiceAccounts)
   \<and> GetServiceAccountsBySelectors exampleRegexp exampleClient [] exampleSubject
       = Inr [hd exampleServiceAccounts]"
proof -
  have f: "FilterNamespaceListBySelector exampleRegexp exampleNamespaces
       \<lparr>ns_MatchLabels = None, ns_MatchList = Some [''nowhere''],
        ns_MatchRegex = \<lparr>Negative = False, Expression = []\<rparr>\<rparr> = Inr []"
    by code_simp
  have l: "listServiceAccounts exampleClient = Inr exampleServiceAccounts"
    by (simp add: exampleClient_def)
  have r: "GetServiceAccountsBySelectors exampleRegexp exampleClient
             (map sa_Namespace exampleServiceAccounts) exampleSubject
           = Inr [hd exampleServiceAccounts]"
    by code_simp
  show ?thesis
    using empty_namespace_list_selects_all [of exampleClient exampleRegexp exampleSubject] f l r
    by simp
qed

section \<open>Deletion of a DynamicClusterRole\<close>

text \<open>No branch of \<open>Reconcile\<close> deletes a cluster role.\<close>

lemma updateClusterRoles_ops:
  "op \<in> set (fst (updateClusterRoles cl crs)) \<Longrightarrow> \<exists>c. op = UpdateClusterRole c"
  by (induction crs) (auto simp: Let_def split: option.splits)

lemma SyncTargetRole_cases:
  "fst (SyncTargetRole mem cl resource) = []
   \<or> (\<exists>crs. fst (SyncTargetRole mem cl resource) = fst (updateClusterRoles cl crs))"
  by (auto simp: SyncTargetRole_def Let_def split: sum.splits
        simp del: updateClusterRoles.simps)

lemma SyncTargetRole_ops:
  "op \<in> set (fst (SyncTargetRole mem cl resource)) \<Longrightarrow> \<exists>c. op = UpdateClusterRole c"
  using SyncTargetRole_cases [of mem cl resource] updateClusterRoles_ops [of op cl] by auto

lemma synchronize_ops:
  assumes "\<And>op. op \<in> set ops \<Longrightarrow> op \<noteq> DeleteClusterRole c"
  shows "DeleteClusterRole c \<notin> set (fst (synchronize mem pd cl ops resource))"
proof -
  have "DeleteClusterRole c \<notin> set (fst (SyncTargetRole mem cl resource))"
    using SyncTargetRole_ops by blast
  then show ?thesis
    using assms
    by (auto simp: synchronize_def finishPass_def Let_def split: sum.splits option.splits)
qed

lemma Reconcile_never_deletes:
  "DeleteClusterRole c \<notin> set (fst (Reconcile mem pd cl req))"
proof (cases "getSource cl req")
  case (Inl e)
  then show ?thesis by (simp add: Reconcile_def)
next
  case (Inr found)
  show ?thesis
  proof (cases found)
    case None
    then show ?thesis using Inr by (simp add: Reconcile_def)
  next
    case (Some r)
    have 1: "DeleteClusterRole c \<notin> set (fst (synchronize mem pd cl [] r))"
      by (rule synchronize_ops) simp
    have 2: "DeleteClusterRole c
               \<notin> set (fst (synchronize mem pd cl [UpdateSource (AddFinalizer r patchFinalizer)]
                              (AddFinalizer r patchFinalizer)))"
      by (rule synchronize_ops) auto
    show ?thesis
      using Inr Some 1 2 by (auto simp: Reconcile_def Let_def split: option.splits)
  qed
qed

text \<open>
  Claim C5. For the DynamicClusterRole of the example, whose deletion timestamp is set
  and which carries the finalizer, the only call of a pass of \<open>Reconcile\<close> is the
  update that removes the finalizer: the cluster role with the reference annotations
  of the resource, which \<open>DeleteTargets\<close> would delete, is not deleted.
\<close>

theorem teardown_not_invoked:
  "dcr_DeletionTimestamp exampleDeletedRole \<noteq> None
   \<and> ContainsFinalizer exampleDeletedRole patchFinalizer
   \<and> Reconcile exampleMemory exampleParseDuration exampleRoleClient ''example-role''
       = ([UpdateSource (RemoveFinalizer exampleDeletedRole patchFinalizer)], 0, None)
   \<and> DeleteTargets exampleRoleClient exampleDeletedRole
       = ([DeleteClusterRole exampleOwnedClusterRole], [])"
  by code_simp

end
